theory Spec2Isabelle
  imports Complex_Main
begin

section \<open>Values, time and tokens\<close>

text \<open>
  Embedding of \<^verbatim>\<open>main.go\<close>: the Apple identity-token verifier and the two login
  handlers. Everything the program reaches through an imported package (the JWT
  parser, the JWK fetch, the Google validator, the Cognito client, the clock, the
  process environment, the JSON decoder) is a field of the record \<open>env\<close>; the
  program's own control flow is written out below, function by function.
\<close>

text \<open>
  A Go \<^verbatim>\<open>interface{}\<close> holding a decoded JSON value: \<^verbatim>\<open>nil\<close>, \<^verbatim>\<open>bool\<close>, \<^verbatim>\<open>float64\<close>,
  \<^verbatim>\<open>string\<close>, \<^verbatim>\<open>[]interface{}\<close> or \<^verbatim>\<open>map[string]interface{}\<close>. A \<^verbatim>\<open>float64\<close> is
  modelled by the real number it denotes (JSON has no NaN or infinity). A
  \<^verbatim>\<open>map[string]interface{}\<close> is a partial map: indexing a missing key yields the nil
  interface, on which every type assertion fails, exactly like \<open>None\<close> here.
\<close>

datatype iface =
    VNil
  | VBool bool
  | VFloat64 real
  | VString string
  | VSlice "iface list"
  | VMap "(string \<times> iface) list"

type_synonym MapClaims = "string \<Rightarrow> iface option"

text \<open>
  \<^verbatim>\<open>time.Time\<close>: seconds since the Unix epoch and nanoseconds within the second.
  Go keeps the seconds as a 64-bit count from the year 1, which is the Unix count
  plus \<open>unixToInternal\<close>; \<^verbatim>\<open>time.Unix(sec, 0)\<close> forms that sum in \<^verbatim>\<open>int64\<close>, so it wraps
  around when \<^verbatim>\<open>sec\<close> is within \<open>unixToInternal\<close> of the largest \<^verbatim>\<open>int64\<close>. \<^verbatim>\<open>t.Before(u)\<close>
  compares the seconds, then the nanoseconds.
\<close>

datatype Time = Time (sec: int) (nsec: nat)

definition unixToInternal :: int where
  "unixToInternal = 62135596800"

text \<open>The value of a two's-complement 64-bit integer after an overflowing sum.\<close>

definition wrap_int64 :: "int \<Rightarrow> int" where
  "wrap_int64 x = (x + 2 ^ 63) mod 2 ^ 64 - 2 ^ 63"

definition time_Unix :: "int \<Rightarrow> nat \<Rightarrow> Time" where
  "time_Unix s n = Time (wrap_int64 (s + unixToInternal) - unixToInternal) n"

definition Before :: "Time \<Rightarrow> Time \<Rightarrow> bool" where
  "Before t u = (sec t < sec u \<or> (sec t = sec u \<and> nsec t < nsec u))"

text \<open>The instant as a real number of seconds, used only to state properties.\<close>

definition seconds_of :: "Time \<Rightarrow> real" where
  "seconds_of t = real_of_int (sec t) + real (nsec t) / 1000000000"

text \<open>
  The conversion \<^verbatim>\<open>int64(exp)\<close> of a \<^verbatim>\<open>float64\<close>: truncation towards zero when the
  result fits 64 bits. Outside that range Go leaves the result to the
  implementation, so it is taken from the parameter \<open>overflow\<close>.
\<close>

definition int64_of_float64 :: "(real \<Rightarrow> int) \<Rightarrow> real \<Rightarrow> int" where
  "int64_of_float64 overflow x =
     (if - (2 ^ 63) \<le> x \<and> x < 2 ^ 63
      then (if 0 \<le> x then \<lfloor>x\<rfloor> else \<lceil>x\<rceil>)
      else overflow x)"

text \<open>
  \<^verbatim>\<open>jwt.SigningMethod\<close>: the dynamic type behind \<^verbatim>\<open>t.Method\<close>. The type assertion
  \<^verbatim>\<open>t.Method.(*jwt.SigningMethodECDSA)\<close> succeeds on the first constructor only.
\<close>

datatype SigningMethod =
    SigningMethodECDSA
  | SigningMethodRSA
  | SigningMethodRSAPSS
  | SigningMethodHMAC
  | SigningMethodEd25519
  | SigningMethodNone

fun is_SigningMethodECDSA :: "SigningMethod \<Rightarrow> bool" where
  "is_SigningMethodECDSA SigningMethodECDSA = True"
| "is_SigningMethodECDSA _ = False"

text \<open>
  \<^verbatim>\<open>jwt.Token\<close>, with the fields the program reads. After \<^verbatim>\<open>jwt.Parse\<close> the claims are
  always a \<^verbatim>\<open>jwt.MapClaims\<close>, so the assertion \<^verbatim>\<open>token.Claims.(jwt.MapClaims)\<close> holds.
\<close>

record Token =
  Raw :: string
  Method :: SigningMethod
  Header :: "string \<Rightarrow> iface option"
  Claims :: MapClaims
  Valid :: bool

datatype pubkey = ECDSAPublicKey nat nat | RSAPublicKey nat nat

text \<open>
  One \<^verbatim>\<open>jwk.Key\<close> of a \<^verbatim>\<open>jwk.Set\<close>: its key id and what \<^verbatim>\<open>key.Raw(&pubkey)\<close> yields
  (an error message or the public key). \<^verbatim>\<open>set.LookupKeyID\<close> returns the first key
  with the given id.
\<close>

record Key =
  KeyID :: string
  KeyRaw :: "string + pubkey"

definition LookupKeyID :: "Key list \<Rightarrow> string \<Rightarrow> Key option" where
  "LookupKeyID keys keyID = find (\<lambda>k. KeyID k = keyID) keys"

section \<open>Errors\<close>

text \<open>
  One constructor for each error the source creates. \<open>keyfunc_error\<close> are the errors
  of the key function handed to \<^verbatim>\<open>jwt.Parse\<close>; \<open>parse_error\<close> is what \<^verbatim>\<open>jwt.Parse\<close>
  returns; \<open>error\<close> is what \<^verbatim>\<open>verifyAppleIDToken\<close> returns.
\<close>

datatype keyfunc_error =
    UnexpectedSigningMethod "iface option"
  | MissingKid
  | NoMatchingJWK string
  | RawKeyError string

datatype parse_error =
    MalformedToken string
  | KeyfuncError keyfunc_error
  | TokenInvalid string

datatype error =
    FetchFailed string
  | ValidationFailed parse_error
  | InvalidTokenClaims
  | TokenExpired
  | InvalidAudience string

section \<open>Requests to the credential backend\<close>

record InitiateAuthInput =
  AuthFlow :: string
  ClientId :: string
  AuthParameters :: "(string \<times> string) list"

text \<open>Pointer fields are options: \<open>None\<close> is the nil pointer.\<close>

record AuthenticationResultType =
  AccessToken :: "string option"
  IdToken :: "string option"
  RefreshToken :: "string option"

record InitiateAuthOutput =
  AuthenticationResult :: "AuthenticationResultType option"

definition aws_ToString :: "string option \<Rightarrow> string" where
  "aws_ToString p = (case p of None \<Rightarrow> [] | Some v \<Rightarrow> v)"

record Payload =
  PayloadClaims :: MapClaims

section \<open>The world outside the program\<close>

text \<open>
  What the imported packages and the operating system answer. \<open>jwt_ParseUnverified\<close>
  decodes the compact token (an error message when it is malformed or names no
  registered method); \<open>jwt_Verify\<close> is \<^verbatim>\<open>token.Method.Verify\<close> and \<open>jwt_ClaimsValid\<close> is
  \<^verbatim>\<open>token.Claims.Valid()\<close>, each \<open>None\<close> on success and an error message otherwise;
  \<open>json_Unmarshal\<close> decodes a request body into a struct whose only field is
  \<^verbatim>\<open>id_token\<close> and yields that field; \<open>fmt_v\<close> is the \<^verbatim>\<open>%v\<close> rendering of a value that is
  neither nil nor a string.
\<close>

record env =
  jwk_Fetch :: "string \<Rightarrow> string + Key list"
  jwt_ParseUnverified :: "string \<Rightarrow> string + Token"
  jwt_Verify :: "Token \<Rightarrow> pubkey \<Rightarrow> string option"
  jwt_ClaimsValid :: "MapClaims \<Rightarrow> string option"
  time_Now :: Time
  int64_overflow :: "real \<Rightarrow> int"
  os_Getenv :: "string \<Rightarrow> string"
  json_Unmarshal :: "string \<Rightarrow> string + string"
  idtoken_Validate :: "string \<Rightarrow> string \<Rightarrow> string + Payload"
  cognito_InitiateAuth :: "InitiateAuthInput \<Rightarrow> string + InitiateAuthOutput"
  fmt_v :: "iface \<Rightarrow> string"

text \<open>
  The calls that leave the process or consult the key set, in the order they are
  made. The trace is what the temporal properties speak about.
\<close>

datatype event =
    JWKFetch string
  | KeyLookup string
  | InitiateAuth InitiateAuthInput

text \<open>The package-level variables set by \<^verbatim>\<open>init\<close> and \<^verbatim>\<open>initApple\<close>, and the trace.\<close>

record state =
  userPoolID :: string
  clientID :: string
  googleClientID :: string
  userPoolIDApple :: string
  clientIDApple :: string
  trace :: "event list"

definition emit :: "event \<Rightarrow> state \<Rightarrow> state" where
  "emit e s = s\<lparr>trace := trace s @ [e]\<rparr>"

section \<open>Apple token verification\<close>

definition appleKeysURL :: string where
  "appleKeysURL = ''https://appleid.apple.com/auth/keys''"

definition fetchAppleJWKSet :: "env \<Rightarrow> state \<Rightarrow> (error + Key list) \<times> state" where
  "fetchAppleJWKSet e s =
     (case jwk_Fetch e appleKeysURL of
        Inl err \<Rightarrow> (Inl (FetchFailed err), emit (JWKFetch appleKeysURL) s)
      | Inr keys \<Rightarrow> (Inr keys, emit (JWKFetch appleKeysURL) s))"

text \<open>The function literal passed to \<^verbatim>\<open>jwt.Parse\<close>; it closes over the fetched set.\<close>

definition keyfunc ::
  "Key list \<Rightarrow> Token \<Rightarrow> state \<Rightarrow> (keyfunc_error + pubkey) \<times> state" where
  "keyfunc keys t s =
     (if \<not> is_SigningMethodECDSA (Method t)
      then (Inl (UnexpectedSigningMethod (Header t ''alg'')), s)
      else (case Header t ''kid'' of
              Some (VString keyID) \<Rightarrow>
                (case LookupKeyID keys keyID of
                   None \<Rightarrow> (Inl (NoMatchingJWK keyID), emit (KeyLookup keyID) s)
                 | Some key \<Rightarrow>
                     (case KeyRaw key of
                        Inl err \<Rightarrow> (Inl (RawKeyError err), emit (KeyLookup keyID) s)
                      | Inr pk \<Rightarrow> (Inr pk, emit (KeyLookup keyID) s)))
            | _ \<Rightarrow> (Inl MissingKid, s)))"

text \<open>
  Modelled from the spec: \<^verbatim>\<open>jwt.Parse\<close> belongs to the imported package golang-jwt v4,
  whose source is not in the repository. It follows steps 1, 3 and 4 of the
  verifier algorithm (parse, key resolution, signature verification): decode the
  token, ask the key function for the key (its error ends the parse), verify the
  signature, run the library's own validation of the claims, and set \<^verbatim>\<open>Valid\<close> when
  both pass. The decoding, the signature check and the library's claim validation
  themselves are parameters of \<open>env\<close>.
\<close>

definition jwt_Parse ::
  "env \<Rightarrow> string \<Rightarrow> (Token \<Rightarrow> state \<Rightarrow> (keyfunc_error + pubkey) \<times> state) \<Rightarrow> state
     \<Rightarrow> (parse_error + Token) \<times> state" where
  "jwt_Parse e tokenString kf s =
     (case jwt_ParseUnverified e tokenString of
        Inl msg \<Rightarrow> (Inl (MalformedToken msg), s)
      | Inr token \<Rightarrow>
          (case kf token s of
             (Inl err, s') \<Rightarrow> (Inl (KeyfuncError err), s')
           | (Inr key, s') \<Rightarrow>
               (case jwt_Verify e token key of
                  Some msg \<Rightarrow> (Inl (TokenInvalid msg), s')
                | None \<Rightarrow>
                    (case jwt_ClaimsValid e (Claims token) of
                       Some msg \<Rightarrow> (Inl (TokenInvalid msg), s')
                     | None \<Rightarrow> (Inr (token\<lparr>Valid := True\<rparr>), s')))))"

definition verifyAppleIDToken ::
  "env \<Rightarrow> string \<Rightarrow> string \<Rightarrow> state \<Rightarrow> (error + MapClaims) \<times> state" where
  "verifyAppleIDToken e tokenString audience s =
     (case fetchAppleJWKSet e s of
        (Inl err, s1) \<Rightarrow> (Inl err, s1)
      | (Inr keys, s1) \<Rightarrow>
          (case jwt_Parse e tokenString (keyfunc keys) s1 of
             (Inl err, s2) \<Rightarrow> (Inl (ValidationFailed err), s2)
           | (Inr token, s2) \<Rightarrow>
               (if \<not> Valid token then (Inl InvalidTokenClaims, s2)
                else if (case Claims token ''exp'' of
                           Some (VFloat64 exp') \<Rightarrow>
                             Before (time_Unix (int64_of_float64 (int64_overflow e) exp') 0)
                                    (time_Now e)
                         | _ \<Rightarrow> False)
                then (Inl TokenExpired, s2)
                else (case Claims token ''aud'' of
                        Some (VString aud) \<Rightarrow>
                          (if aud \<noteq> audience then (Inl (InvalidAudience aud), s2)
                           else (Inr (Claims token), s2))
                      | _ \<Rightarrow> (Inr (Claims token), s2)))))"

text \<open>
  The condition of the expiry check, named so that properties can refer to it: the
  \<^verbatim>\<open>exp\<close> claim is a \<^verbatim>\<open>float64\<close> and \<^verbatim>\<open>time.Unix(int64(exp), 0)\<close> is before
  \<^verbatim>\<open>time.Now()\<close>.
\<close>

definition expiry_check_fails :: "env \<Rightarrow> MapClaims \<Rightarrow> bool" where
  "expiry_check_fails e claims =
     (case claims ''exp'' of
        Some (VFloat64 exp') \<Rightarrow>
          Before (time_Unix (int64_of_float64 (int64_overflow e) exp') 0) (time_Now e)
      | _ \<Rightarrow> False)"

text \<open>Counting the key-set fetches and the exchange calls of a trace.\<close>

fun is_JWKFetch :: "event \<Rightarrow> bool" where
  "is_JWKFetch (JWKFetch _) = True"
| "is_JWKFetch _ = False"

fun is_KeyLookup :: "event \<Rightarrow> bool" where
  "is_KeyLookup (KeyLookup _) = True"
| "is_KeyLookup _ = False"

fun is_InitiateAuth :: "event \<Rightarrow> bool" where
  "is_InitiateAuth (InitiateAuth _) = True"
| "is_InitiateAuth _ = False"

definition fetches :: "state \<Rightarrow> nat" where
  "fetches s = length (filter is_JWKFetch (trace s))"

definition exchanges :: "state \<Rightarrow> nat" where
  "exchanges s = length (filter is_InitiateAuth (trace s))"

section \<open>Error messages and formatting\<close>

text \<open>\<^verbatim>\<open>fmt.Sprintf("%v", x)\<close> of an interface value.\<close>

definition Sprintf_v :: "env \<Rightarrow> iface option \<Rightarrow> string" where
  "Sprintf_v e x =
     (case x of
        None \<Rightarrow> ''<nil>''
      | Some VNil \<Rightarrow> ''<nil>''
      | Some (VString str) \<Rightarrow> str
      | Some v \<Rightarrow> fmt_v e v)"

fun keyfunc_error_string :: "env \<Rightarrow> keyfunc_error \<Rightarrow> string" where
  "keyfunc_error_string e (UnexpectedSigningMethod alg) =
     ''unexpected signing method: '' @ Sprintf_v e alg"
| "keyfunc_error_string e MissingKid = ''missing kid header in token''"
| "keyfunc_error_string e (NoMatchingJWK keyID) = ''no matching JWK for kid: '' @ keyID"
| "keyfunc_error_string e (RawKeyError msg) = msg"

fun parse_error_string :: "env \<Rightarrow> parse_error \<Rightarrow> string" where
  "parse_error_string e (MalformedToken msg) = msg"
| "parse_error_string e (KeyfuncError err) = keyfunc_error_string e err"
| "parse_error_string e (TokenInvalid msg) = msg"

fun Error :: "env \<Rightarrow> error \<Rightarrow> string" where
  "Error e (FetchFailed msg) = ''failed to fetch Apple JWKs: '' @ msg"
| "Error e (ValidationFailed err) =
     ''apple token validation failed: '' @ parse_error_string e err"
| "Error e InvalidTokenClaims = ''invalid token claims''"
| "Error e TokenExpired = ''token expired''"
| "Error e (InvalidAudience aud) = ''invalid audience: '' @ aud"

section \<open>The login handlers\<close>

text \<open>
  What a handler leaves on the wire: a status and a body, or a panic (which
  \<^verbatim>\<open>net/http\<close> recovers by dropping the connection: no response is written).
  \<^verbatim>\<open>http.Error\<close> writes its message as a line of plain text; the JSON encoder
  writes an object, modelled by its members in order. A handler that writes a body
  without setting a status answers 200. The \<^verbatim>\<open>Content-Type\<close> header and the line the
  Apple handler prints on standard output are not modelled. The request is given
  by the bytes of its body.
\<close>

datatype body = Text string | JSON "(string \<times> string) list"

datatype outcome = Response nat body | Panic string

definition http_Error :: "string \<Rightarrow> nat \<Rightarrow> outcome" where
  "http_Error msg code = Response code (Text (msg @ [CHR 0x0A]))"

text \<open>The response structs, fields in declaration order, and their JSON encodings.\<close>

datatype LoginResponse = LoginResponse string string string

datatype AppleLoginResponse = AppleLoginResponse string string string string

fun json_LoginResponse :: "LoginResponse \<Rightarrow> (string \<times> string) list" where
  "json_LoginResponse (LoginResponse accessToken idToken refreshToken) =
     [(''access_token'', accessToken), (''id_token'', idToken),
      (''refresh_token'', refreshToken)]"

text \<open>Every field of the Apple response is tagged \<^verbatim>\<open>omitempty\<close>.\<close>

fun json_AppleLoginResponse :: "AppleLoginResponse \<Rightarrow> (string \<times> string) list" where
  "json_AppleLoginResponse (AppleLoginResponse accessToken idToken refreshToken message) =
     filter (\<lambda>m. snd m \<noteq> [])
       [(''access_token'', accessToken), (''id_token'', idToken),
        (''refresh_token'', refreshToken), (''message'', message)]"

definition loginWithAppleHandler :: "env \<Rightarrow> string \<Rightarrow> state \<Rightarrow> outcome \<times> state" where
  \<open>loginWithAppleHandler e reqBody s =
     (case json_Unmarshal e reqBody of
        Inl err \<Rightarrow> (http_Error ''{"error": "invalid request body"}'' 400, s)
      | Inr id_token \<Rightarrow>
          (case verifyAppleIDToken e id_token (os_Getenv e ''APPLE_CLIENT_ID'') s of
             (Inl err, s1) \<Rightarrow>
               (http_Error
                  (''{"error": "apple token verification failed: '' @ Error e err @ ''"}'')
                  401, s1)
           | (Inr claims, s1) \<Rightarrow>
               (let email = Sprintf_v e (claims ''email'');
                    inp = \<lparr>AuthFlow = ''CUSTOM_AUTH'', ClientId = clientIDApple s1,
                           AuthParameters = [(''USERNAME'', email)]\<rparr>;
                    s2 = emit (InitiateAuth inp) s1
                in (case cognito_InitiateAuth e inp of
                      Inl err \<Rightarrow>
                        (Response 200 (JSON (json_AppleLoginResponse
                           (AppleLoginResponse [] [] []
                              (''Apple login verified for '' @ email
                                 @ '' (Cognito not configured)'')))), s2)
                    | Inr resp \<Rightarrow>
                        (case AuthenticationResult resp of
                           None \<Rightarrow> (Panic ''nil pointer dereference'', s2)
                         | Some r \<Rightarrow>
                             (Response 200 (JSON (json_AppleLoginResponse
                                (AppleLoginResponse (aws_ToString (AccessToken r))
                                   (aws_ToString (IdToken r))
                                   (aws_ToString (RefreshToken r)) []))), s2))))))\<close>

definition loginWithGoogleHandler :: "env \<Rightarrow> string \<Rightarrow> state \<Rightarrow> outcome \<times> state" where
  "loginWithGoogleHandler e reqBody s =
     (case json_Unmarshal e reqBody of
        Inl err \<Rightarrow> (http_Error ''invalid request body'' 400, s)
      | Inr id_token \<Rightarrow>
          (case idtoken_Validate e id_token (googleClientID s) of
             Inl err \<Rightarrow> (http_Error (''invalid google token: '' @ err) 401, s)
           | Inr payload \<Rightarrow>
               (case PayloadClaims payload ''email'' of
                  Some (VString email) \<Rightarrow>
                    (let inp = \<lparr>AuthFlow = ''USER_SRP_AUTH'', ClientId = clientID s,
                                AuthParameters = [(''IDENTITY_PROVIDER'', ''Google''),
                                                  (''USERNAME'', email),
                                                  (''ID_TOKEN'', id_token)]\<rparr>;
                         s1 = emit (InitiateAuth inp) s
                     in (case cognito_InitiateAuth e inp of
                           Inl err \<Rightarrow> (http_Error (''cognito auth error: '' @ err) 401, s1)
                         | Inr resp \<Rightarrow>
                             (case AuthenticationResult resp of
                                None \<Rightarrow> (Panic ''nil pointer dereference'', s1)
                              | Some r \<Rightarrow>
                                  (Response 200 (JSON (json_LoginResponse
                                     (LoginResponse (aws_ToString (AccessToken r))
                                        (aws_ToString (IdToken r))
                                        (aws_ToString (RefreshToken r))))), s1))))
                | _ \<Rightarrow> (Panic ''interface conversion: interface {} is not string'', s))))"

section \<open>A concrete world\<close>

text \<open>
  One key set with the single key \<open>k1\<close>, a handful of tokens, and a library whose
  claims validation reads its clock at second 1000 while the verifier's own
  \<^verbatim>\<open>time.Now()\<close> reads second 1002. The tokens are named by what is special about
  them; every other string is malformed.
\<close>

definition example_keys :: "Key list" where
  "example_keys = [\<lparr>KeyID = ''k1'', KeyRaw = Inr (ECDSAPublicKey 1 2)\<rparr>]"

definition example_token ::
  "string \<Rightarrow> SigningMethod \<Rightarrow> string \<Rightarrow> string \<Rightarrow> MapClaims \<Rightarrow> Token" where
  "example_token raw m alg kid claims =
     \<lparr>Raw = raw, Method = m,
      Header = [''alg'' \<mapsto> VString alg, ''kid'' \<mapsto> VString kid],
      Claims = claims, Valid = False\<rparr>"

definition token_fresh :: Token where
  "token_fresh =
     example_token ''fresh'' SigningMethodECDSA ''ES256'' ''k1''
       [''exp'' \<mapsto> VFloat64 2000, ''aud'' \<mapsto> VString ''client'',
        ''email'' \<mapsto> VString ''ann@example.com'']"

definition token_stale :: Token where
  "token_stale =
     example_token ''stale'' SigningMethodECDSA ''ES256'' ''k1''
       [''exp'' \<mapsto> VFloat64 1001, ''aud'' \<mapsto> VString ''client'']"

definition token_noexp :: Token where
  "token_noexp =
     example_token ''noexp'' SigningMethodECDSA ''ES256'' ''k1''
       [''aud'' \<mapsto> VString ''client'']"

definition token_noaud :: Token where
  "token_noaud =
     example_token ''noaud'' SigningMethodECDSA ''ES256'' ''k1''
       [''exp'' \<mapsto> VFloat64 2000]"

definition token_audlist :: Token where
  "token_audlist =
     example_token ''audlist'' SigningMethodECDSA ''ES256'' ''k1''
       [''exp'' \<mapsto> VFloat64 2000, ''aud'' \<mapsto> VSlice [VString ''other'']]"

definition token_wrongaud :: Token where
  "token_wrongaud =
     example_token ''wrongaud'' SigningMethodECDSA ''ES256'' ''k1''
       [''exp'' \<mapsto> VFloat64 2000, ''aud'' \<mapsto> VString ''other'']"

definition token_rsa :: Token where
  "token_rsa =
     example_token ''rsa'' SigningMethodRSA ''RS256'' ''k1''
       [''exp'' \<mapsto> VFloat64 500, ''aud'' \<mapsto> VString ''client'']"

definition token_forged :: Token where
  "token_forged =
     example_token ''forged'' SigningMethodECDSA ''ES256'' ''k1''
       [''exp'' \<mapsto> VFloat64 500, ''aud'' \<mapsto> VString ''client'']"

definition token_rotated :: Token where
  "token_rotated =
     example_token ''rotated'' SigningMethodECDSA ''ES256'' ''k9''
       [''exp'' \<mapsto> VFloat64 2000, ''aud'' \<mapsto> VString ''client'']"

definition token_farfuture :: Token where
  "token_farfuture =
     example_token ''farfuture'' SigningMethodECDSA ''ES256'' ''k1''
       [''exp'' \<mapsto> VFloat64 9223372000000000000, ''aud'' \<mapsto> VString ''client'']"

definition example_tokens :: "(string \<times> Token) list" where
  "example_tokens =
     [(''fresh'', token_fresh),
      (''stale'', token_stale),
      (''noexp'', token_noexp),
      (''noaud'', token_noaud),
      (''audlist'', token_audlist),
      (''wrongaud'', token_wrongaud),
      (''rsa'', token_rsa),
      (''forged'', token_forged),
      (''rotated'', token_rotated),
      (''farfuture'', token_farfuture)]"

definition example_ParseUnverified :: "string \<Rightarrow> string + Token" where
  "example_ParseUnverified tokenString =
     (case map_of example_tokens tokenString of
        None \<Rightarrow> Inl ''token contains an invalid number of segments''
      | Some t \<Rightarrow> Inr t)"

definition example_Verify :: "Token \<Rightarrow> pubkey \<Rightarrow> string option" where
  "example_Verify t key =
     (if Raw t = ''forged'' then Some ''crypto/ecdsa: verification error'' else None)"

definition example_ClaimsValid :: "MapClaims \<Rightarrow> string option" where
  "example_ClaimsValid claims =
     (case claims ''exp'' of
        None \<Rightarrow> None
      | Some (VFloat64 x) \<Rightarrow> (if 1000 < x then None else Some ''Token is expired'')
      | Some _ \<Rightarrow> Some ''Token is expired'')"

definition example_body :: "string \<Rightarrow> string" where
  \<open>example_body tok = ''{"id_token":"'' @ tok @ ''"}''\<close>

definition example_Unmarshal :: "string \<Rightarrow> string + string" where
  "example_Unmarshal b =
     (case map_of (map (\<lambda>tok. (example_body tok, tok))
                     [''fresh'', ''stale'', ''rsa'', ''gfresh'', ''gnomail'', ''gstale'']) b of
        None \<Rightarrow> Inl ''invalid character in request body''
      | Some tok \<Rightarrow> Inr tok)"

definition example_Validate :: "string \<Rightarrow> string \<Rightarrow> string + Payload" where
  "example_Validate tok aud =
     (if tok = ''gfresh'' \<and> aud = ''gclient''
      then Inr \<lparr>PayloadClaims = [''email'' \<mapsto> VString ''bob@example.com'']\<rparr>
      else if tok = ''gnomail'' \<and> aud = ''gclient''
      then Inr \<lparr>PayloadClaims = Map.empty\<rparr>
      else Inl ''idtoken: token expired'')"

definition example_env :: env where
  "example_env =
     \<lparr>jwk_Fetch = (\<lambda>url. Inr example_keys),
      jwt_ParseUnverified = example_ParseUnverified,
      jwt_Verify = example_Verify,
      jwt_ClaimsValid = example_ClaimsValid,
      time_Now = Time 1002 0,
      int64_overflow = (\<lambda>x. - (2 ^ 63)),
      os_Getenv = (\<lambda>name. if name = ''APPLE_CLIENT_ID'' then ''client'' else []),
      json_Unmarshal = example_Unmarshal,
      idtoken_Validate = example_Validate,
      cognito_InitiateAuth = (\<lambda>inp. Inl ''operation error: missing region''),
      fmt_v = (\<lambda>v. ''?'')\<rparr>"

text \<open>The same world with the key-set endpoint unreachable.\<close>

definition example_env_offline :: env where
  "example_env_offline = example_env\<lparr>jwk_Fetch := (\<lambda>url. Inl ''connection refused'')\<rparr>"

text \<open>The same world with a credential backend that issues tokens.\<close>

definition example_env_cognito :: env where
  "example_env_cognito =
     example_env\<lparr>cognito_InitiateAuth :=
       (\<lambda>inp. Inr \<lparr>AuthenticationResult =
          Some \<lparr>AccessToken = Some ''at'', IdToken = Some ''it'',
                RefreshToken = Some ''rt''\<rparr>\<rparr>)\<rparr>"

definition example_state :: state where
  "example_state =
     \<lparr>userPoolID = ''pool'', clientID = ''app'', googleClientID = ''gclient'',
      userPoolIDApple = ''pool'', clientIDApple = ''app'', trace = []\<rparr>"

text \<open>A later state: other client ids, and one verification already in the trace.\<close>

definition example_state_later :: state where
  "example_state_later =
     example_state\<lparr>clientID := ''app2'', clientIDApple := ''app3'',
                   trace := [JWKFetch appleKeysURL, KeyLookup ''k1'']\<rparr>"

lemmas example_defs =
  example_env_def example_env_offline_def example_env_cognito_def example_state_def
  example_keys_def example_token_def example_tokens_def example_ParseUnverified_def
  example_Verify_def example_ClaimsValid_def example_body_def example_Unmarshal_def
  example_Validate_def token_fresh_def token_stale_def token_noexp_def token_noaud_def
  token_audlist_def token_wrongaud_def token_rsa_def token_forged_def token_rotated_def
  token_farfuture_def

lemmas verify_defs =
  verifyAppleIDToken_def fetchAppleJWKSet_def jwt_Parse_def keyfunc_def LookupKeyID_def
  emit_def appleKeysURL_def Before_def time_Unix_def int64_of_float64_def
  wrap_int64_def unixToInternal_def

section \<open>Facts about the verifier\<close>

text \<open>A sum that fits 64 bits is not changed; one just above the range comes out negative.\<close>

lemma wrap_int64_id: "- (2 ^ 63) \<le> x \<Longrightarrow> x < 2 ^ 63 \<Longrightarrow> wrap_int64 x = x"
  unfolding wrap_int64_def by (simp add: mod_pos_pos_trivial)

lemma wrap_int64_over:
  assumes "2 ^ 63 \<le> x" "x < 2 ^ 63 + 2 ^ 64"
  shows "wrap_int64 x = x - 2 ^ 64"
proof -
  define y where "y = x + 2 ^ 63 - 2 ^ 64"
  have y: "0 \<le> y" "y < 2 ^ 64" using assms by (simp_all add: y_def)
  have "x + 2 ^ 63 = y + 1 * 2 ^ 64" by (simp add: y_def)
  then have "(x + 2 ^ 63) mod 2 ^ 64 = (y + 1 * 2 ^ 64) mod 2 ^ 64" by (rule arg_cong)
  also have "\<dots> = y mod 2 ^ 64" by (rule mod_mult_self1)
  also have "\<dots> = y" using y by (rule mod_pos_pos_trivial)
  finally show ?thesis by (simp add: wrap_int64_def y_def)
qed


text \<open>
  What the expiry check compares, for an \<^verbatim>\<open>exp\<close> that fits 64 bits: the truncated
  value itself while \<^verbatim>\<open>time.Unix\<close> does not wrap, and that value less \<open>2 ^ 64\<close> when
  it does.
\<close>

lemma time_Unix_nowrap:
  assumes "- (2 ^ 63) \<le> s" "s < 2 ^ 63 - 62135596800"
  shows "time_Unix s n = Time s n"
proof -
  have "wrap_int64 (s + unixToInternal) = s + unixToInternal"
    using assms by (intro wrap_int64_id) (simp_all add: unixToInternal_def)
  then show ?thesis by (simp add: time_Unix_def)
qed

lemma time_Unix_wrap:
  assumes "2 ^ 63 - 62135596800 \<le> s" "s < 2 ^ 63"
  shows "time_Unix s n = Time (s - 2 ^ 64) n"
proof -
  have "wrap_int64 (s + unixToInternal) = s + unixToInternal - 2 ^ 64"
    using assms by (intro wrap_int64_over) (simp_all add: unixToInternal_def)
  then show ?thesis by (simp add: time_Unix_def)
qed

lemma Before_iff_seconds:
  assumes "nsec now < 1000000000"
  shows "Before (Time k 0) now = (real_of_int k < seconds_of now)"
proof -
  have frac: "0 \<le> real (nsec now) / 1000000000" "real (nsec now) / 1000000000 < 1"
    using assms by simp_all
  show ?thesis
  proof (cases "k < sec now")
    case True
    then have "real_of_int k < real_of_int (sec now)" by simp
    with frac(1) have "real_of_int k < seconds_of now"
      by (simp add: seconds_of_def)
    with True show ?thesis by (simp add: Before_def)
  next
    case False
    show ?thesis
    proof (cases "k = sec now")
      case True
      then have "(real_of_int k < seconds_of now) = (0 < nsec now)"
        by (simp add: seconds_of_def)
      with True show ?thesis by (simp add: Before_def)
    next
      case ne: False
      with False have "sec now + 1 \<le> k" by simp
      then have "real_of_int (sec now) + 1 \<le> real_of_int k" by linarith
      with frac(2) have "\<not> real_of_int k < seconds_of now"
        by (simp add: seconds_of_def)
      with False ne show ?thesis by (simp add: Before_def)
    qed
  qed
qed


text \<open>The key function's answer, and so the parser's, does not depend on the state.\<close>

lemma keyfunc_fst: "fst (keyfunc keys t s) = fst (keyfunc keys t s')"
  by (simp add: keyfunc_def split: option.splits iface.splits sum.splits)

lemma jwt_Parse_keyfunc_fst:
  "fst (jwt_Parse e ts (keyfunc keys) s) = fst (jwt_Parse e ts (keyfunc keys) s')"
proof (cases "jwt_ParseUnverified e ts")
  case (Inl msg)
  then show ?thesis by (simp add: jwt_Parse_def)
next
  case (Inr t)
  obtain r1 s1 where k1: "keyfunc keys t s = (r1, s1)" by (cases "keyfunc keys t s")
  obtain r2 s2 where k2: "keyfunc keys t s' = (r2, s2)" by (cases "keyfunc keys t s'")
  have "r1 = r2" using keyfunc_fst[of keys t s s'] k1 k2 by simp
  with Inr k1 k2 show ?thesis
    by (simp add: jwt_Parse_def split: sum.splits option.splits)
qed

text \<open>A token returned by the parser is the decoded one, marked valid.\<close>

lemma jwt_Parse_InrD:
  assumes "fst (jwt_Parse e ts kf s) = Inr tok"
  shows "\<exists>t. jwt_ParseUnverified e ts = Inr t \<and> tok = t\<lparr>Valid := True\<rparr>"
  using assms
  by (auto simp: jwt_Parse_def split: sum.splits option.splits prod.splits)

text \<open>
  Once the key set is fetched and the parser accepts the token, the result is
  decided by the two claim checks, expiry first.
\<close>

lemma verify_after_parse:
  assumes fetch: "jwk_Fetch e appleKeysURL = Inr keys"
      and parse: "fst (jwt_Parse e ts (keyfunc keys) s') = Inr token"
  shows "fst (verifyAppleIDToken e ts aud s) =
           (if expiry_check_fails e (Claims token) then Inl TokenExpired
            else (case Claims token ''aud'' of
                    Some (VString a) \<Rightarrow>
                      if a \<noteq> aud then Inl (InvalidAudience a) else Inr (Claims token)
                  | _ \<Rightarrow> Inr (Claims token)))"
proof -
  let ?s1 = "emit (JWKFetch appleKeysURL) s"
  have p: "fst (jwt_Parse e ts (keyfunc keys) ?s1) = Inr token"
    using parse jwt_Parse_keyfunc_fst[of e ts keys ?s1 s'] by simp
  obtain s2 where p2: "jwt_Parse e ts (keyfunc keys) ?s1 = (Inr token, s2)"
    using p by (cases "jwt_Parse e ts (keyfunc keys) ?s1") simp
  have v: "Valid token" using jwt_Parse_InrD[OF p] by auto
  show ?thesis
    using fetch p2 v
    by (simp add: verifyAppleIDToken_def fetchAppleJWKSet_def expiry_check_fails_def
        split: option.splits iface.splits)
qed

section \<open>Expired tokens\<close>




section \<open>The expiry claim\<close>

text \<open>
  C4, as the code has it. Once the key set is fetched and the parser has accepted
  the token, verification fails with \<open>TokenExpired\<close> exactly when the \<^verbatim>\<open>exp\<close> claim is
  a number and \<^verbatim>\<open>time.Unix(int64(exp), 0)\<close> is before \<^verbatim>\<open>time.Now()\<close>. In numbers: the
  seconds compared are \<^verbatim>\<open>int64(exp)\<close> after the 64-bit sum with 62135596800 has wrapped
  around. So for an \<^verbatim>\<open>exp\<close> from \<open>- 2 ^ 63\<close> up to \<open>2 ^ 63 - 62135596800\<close> the token is
  expired exactly when \<^verbatim>\<open>exp\<close>, truncated towards zero, is less than the current time
  in seconds; for a larger \<^verbatim>\<open>exp\<close> below \<open>2 ^ 63\<close> the sum wraps and the token is
  expired at any time since 1970. The claim need not be present: a token whose
  \<^verbatim>\<open>exp\<close> is absent or not a number skips the check and is then judged by the
  audience check alone, so it verifies unless \<^verbatim>\<open>aud\<close> is a string other than the
  expected audience.
\<close>

theorem expiry_checked_only_when_numeric:
  assumes fetch: "jwk_Fetch e appleKeysURL = Inr keys"
      and parse: "fst (jwt_Parse e tokenString (keyfunc keys) s') = Inr token"
  shows "(fst (verifyAppleIDToken e tokenString audience s) = Inl TokenExpired) =
           (\<exists>x. Claims token ''exp'' = Some (VFloat64 x) \<and>
              (let k = (int64_of_float64 (int64_overflow e) x + 62135596800 + 2 ^ 63) mod 2 ^ 64
                         - 2 ^ 63 - 62135596800
               in k < sec (time_Now e) \<or> (k = sec (time_Now e) \<and> 0 < nsec (time_Now e)))) \<and>
         (\<forall>x. Claims token ''exp'' = Some (VFloat64 x) \<longrightarrow>
              - (2 ^ 63) \<le> x \<longrightarrow> x < 2 ^ 63 - 62135596800 \<longrightarrow>
              nsec (time_Now e) < 1000000000 \<longrightarrow>
              (fst (verifyAppleIDToken e tokenString audience s) = Inl TokenExpired) =
                (real_of_int (if 0 \<le> x then \<lfloor>x\<rfloor> else \<lceil>x\<rceil>) < seconds_of (time_Now e))) \<and>
         (\<forall>x. Claims token ''exp'' = Some (VFloat64 x) \<longrightarrow>
              2 ^ 63 - 62135596800 \<le> x \<longrightarrow> x < 2 ^ 63 \<longrightarrow> 0 \<le> sec (time_Now e) \<longrightarrow>
              fst (verifyAppleIDToken e tokenString audience s) = Inl TokenExpired) \<and>
         ((\<forall>x. Claims token ''exp'' \<noteq> Some (VFloat64 x)) \<longrightarrow>
            fst (verifyAppleIDToken e tokenString audience s) \<noteq> Inl TokenExpired \<and>
            (\<forall>a. Claims token ''aud'' = Some (VString a) \<and> a \<noteq> audience \<longrightarrow>
                 fst (verifyAppleIDToken e tokenString audience s) = Inl (InvalidAudience a)) \<and>
            ((\<forall>a. Claims token ''aud'' = Some (VString a) \<longrightarrow> a = audience) \<longrightarrow>
               fst (verifyAppleIDToken e tokenString audience s) = Inr (Claims token)))"
proof -
  let ?V = "fst (verifyAppleIDToken e tokenString audience s)"
  note r = verify_after_parse[OF fetch parse, of audience s]
  have first: "(?V = Inl TokenExpired) = expiry_check_fails e (Claims token)"
    using r by (simp split: option.splits iface.splits)
  have num: "expiry_check_fails e (Claims token) =
               Before (time_Unix (int64_of_float64 (int64_overflow e) x) 0) (time_Now e)"
    if "Claims token ''exp'' = Some (VFloat64 x)" for x
    using that by (simp add: expiry_check_fails_def)
  have notnum: "\<not> expiry_check_fails e (Claims token)"
    if "\<forall>x. Claims token ''exp'' \<noteq> Some (VFloat64 x)"
    using that by (simp add: expiry_check_fails_def split: option.splits iface.splits)
  have arith: "Before (time_Unix k0 0) now =
                 (let k = (k0 + 62135596800 + 2 ^ 63) mod 2 ^ 64 - 2 ^ 63 - 62135596800
                  in k < sec now \<or> (k = sec now \<and> 0 < nsec now))" for k0 now
    by (simp add: Before_def time_Unix_def wrap_int64_def unixToInternal_def Let_def)
  have exact: "(?V = Inl TokenExpired) =
                 (\<exists>x. Claims token ''exp'' = Some (VFloat64 x) \<and>
                    (let k = (int64_of_float64 (int64_overflow e) x + 62135596800 + 2 ^ 63)
                               mod 2 ^ 64 - 2 ^ 63 - 62135596800
                     in k < sec (time_Now e) \<or> (k = sec (time_Now e) \<and> 0 < nsec (time_Now e))))"
  proof (cases "\<exists>x. Claims token ''exp'' = Some (VFloat64 x)")
    case True
    then obtain x where x: "Claims token ''exp'' = Some (VFloat64 x)" by blast
    from first num[OF x] arith[of "int64_of_float64 (int64_overflow e) x" "time_Now e"] x
    show ?thesis by simp
  next
    case False
    then have "\<forall>x. Claims token ''exp'' \<noteq> Some (VFloat64 x)" by simp
    from first notnum[OF this] False show ?thesis by simp
  qed
  have inrange: "(?V = Inl TokenExpired) =
                   (real_of_int (if 0 \<le> x then \<lfloor>x\<rfloor> else \<lceil>x\<rceil>) < seconds_of (time_Now e))"
    if x: "Claims token ''exp'' = Some (VFloat64 x)"
      and lo: "- (2 ^ 63) \<le> x" and hi: "x < 2 ^ 63 - 62135596800"
      and wf: "nsec (time_Now e) < 1000000000" for x
  proof -
    let ?k = "if 0 \<le> x then \<lfloor>x\<rfloor> else \<lceil>x\<rceil>"
    have "x < 2 ^ 63" using hi by simp
    with lo have conv: "int64_of_float64 (int64_overflow e) x = ?k"
      by (simp add: int64_of_float64_def)
    have klo: "- (2 ^ 63) \<le> ?k"
    proof (cases "0 \<le> x")
      case True
      then have "0 \<le> \<lfloor>x\<rfloor>" by simp
      with True show ?thesis by simp
    next
      case False
      have "real_of_int (- (2 ^ 63)) \<le> x" using lo by simp
      then have "\<lceil>real_of_int (- (2 ^ 63))\<rceil> \<le> \<lceil>x\<rceil>" by (rule ceiling_mono)
      then have "- (2 ^ 63) \<le> \<lceil>x\<rceil>" by (simp only: ceiling_of_int)
      with False show ?thesis by simp
    qed
    have khi: "?k < 2 ^ 63 - 62135596800"
    proof (cases "0 \<le> x")
      case True
      have "x < real_of_int (2 ^ 63 - 62135596800)" using hi by simp
      then have "\<lfloor>x\<rfloor> < 2 ^ 63 - 62135596800" by (simp only: floor_less_iff)
      with True show ?thesis by simp
    next
      case False
      then have "\<lceil>x\<rceil> \<le> 0" by (simp add: ceiling_le_zero)
      with False show ?thesis by simp
    qed
    have "time_Unix ?k 0 = Time ?k 0"
      using klo khi by (rule time_Unix_nowrap)
    with first num[OF x] conv Before_iff_seconds[OF wf, of ?k] show ?thesis by simp
  qed
  have wraps: "?V = Inl TokenExpired"
    if x: "Claims token ''exp'' = Some (VFloat64 x)"
      and lo: "2 ^ 63 - 62135596800 \<le> x" and hi: "x < 2 ^ 63"
      and now: "0 \<le> sec (time_Now e)" for x
  proof -
    have pos: "0 \<le> x" using lo by simp
    with hi have conv: "int64_of_float64 (int64_overflow e) x = \<lfloor>x\<rfloor>"
      by (simp add: int64_of_float64_def)
    have "real_of_int (2 ^ 63 - 62135596800) \<le> x" using lo by simp
    then have klo: "2 ^ 63 - 62135596800 \<le> \<lfloor>x\<rfloor>" by (simp only: le_floor_iff)
    have "x < real_of_int (2 ^ 63)" using hi by simp
    then have khi: "\<lfloor>x\<rfloor> < 2 ^ 63" by (simp only: floor_less_iff)
    have tu: "time_Unix \<lfloor>x\<rfloor> 0 = Time (\<lfloor>x\<rfloor> - 2 ^ 64) 0"
      using klo khi by (rule time_Unix_wrap)
    have "(2::int) ^ 63 < 2 ^ 64" by simp
    with khi now have "\<lfloor>x\<rfloor> - 2 ^ 64 < sec (time_Now e)" by linarith
    then have "Before (Time (\<lfloor>x\<rfloor> - 2 ^ 64) 0) (time_Now e)"
      by (simp add: Before_def)
    with first num[OF x] conv tu show ?thesis by simp
  qed
  have skipped:
    "?V \<noteq> Inl TokenExpired \<and>
     (\<forall>a. Claims token ''aud'' = Some (VString a) \<and> a \<noteq> audience \<longrightarrow>
          ?V = Inl (InvalidAudience a)) \<and>
     ((\<forall>a. Claims token ''aud'' = Some (VString a) \<longrightarrow> a = audience) \<longrightarrow>
        ?V = Inr (Claims token))"
    if nn: "\<forall>x. Claims token ''exp'' \<noteq> Some (VFloat64 x)"
  proof -
    note ne = notnum[OF nn]
    have a: "?V \<noteq> Inl TokenExpired" using first ne by simp
    have b: "?V = Inl (InvalidAudience a)"
      if "Claims token ''aud'' = Some (VString a)" "a \<noteq> audience" for a
      using r ne that by simp
    have c: "?V = Inr (Claims token)"
      if "\<forall>a. Claims token ''aud'' = Some (VString a) \<longrightarrow> a = audience"
      using r ne that by (simp split: option.splits iface.splits)
    from a b c show ?thesis by blast
  qed
  from exact inrange wraps skipped show ?thesis by blast
qed

text \<open>
  The theorem at four tokens: \<open>stale\<close> (expiry 1001, before second 1002), \<open>fresh\<close>
  (expiry 2000, not before it), \<open>farfuture\<close> (expiry 9223372000000000000, where the
  sum wraps) and \<open>noexp\<close> (no expiry), the last once for the audience it names and
  once for another.
\<close>

theorem expiry_checked_only_when_numeric_witness:
  "jwk_Fetch example_env appleKeysURL = Inr example_keys \<and>
   nsec (time_Now example_env) < 1000000000 \<and> 0 \<le> sec (time_Now example_env) \<and>
   fst (jwt_Parse example_env ''stale'' (keyfunc example_keys) example_state)
     = Inr (token_stale\<lparr>Valid := True\<rparr>) \<and>
   Claims (token_stale\<lparr>Valid := True\<rparr>) ''exp'' = Some (VFloat64 1001) \<and>
   - (2 ^ 63) \<le> (1001::real) \<and> (1001::real) < 2 ^ 63 - 62135596800 \<and>
   real_of_int \<lfloor>1001::real\<rfloor> < seconds_of (time_Now example_env) \<and>
   fst (verifyAppleIDToken example_env ''stale'' ''client'' example_state) = Inl TokenExpired \<and>
   fst (jwt_Parse example_env ''fresh'' (keyfunc example_keys) example_state)
     = Inr (token_fresh\<lparr>Valid := True\<rparr>) \<and>
   Claims (token_fresh\<lparr>Valid := True\<rparr>) ''exp'' = Some (VFloat64 2000) \<and>
   - (2 ^ 63) \<le> (2000::real) \<and> (2000::real) < 2 ^ 63 - 62135596800 \<and>
   \<not> real_of_int \<lfloor>2000::real\<rfloor> < seconds_of (time_Now example_env) \<and>
   fst (verifyAppleIDToken example_env ''fresh'' ''client'' example_state) \<noteq> Inl TokenExpired \<and>
   fst (jwt_Parse example_env ''farfuture'' (keyfunc example_keys) example_state)
     = Inr (token_farfuture\<lparr>Valid := True\<rparr>) \<and>
   Claims (token_farfuture\<lparr>Valid := True\<rparr>) ''exp'' = Some (VFloat64 9223372000000000000) \<and>
   2 ^ 63 - 62135596800 \<le> (9223372000000000000::real) \<and>
   (9223372000000000000::real) < 2 ^ 63 \<and>
   fst (verifyAppleIDToken example_env ''farfuture'' ''client'' example_state)
     = Inl TokenExpired \<and>
   fst (jwt_Parse example_env ''noexp'' (keyfunc example_keys) example_state)
     = Inr (token_noexp\<lparr>Valid := True\<rparr>) \<and>
   (\<forall>x. Claims (token_noexp\<lparr>Valid := True\<rparr>) ''exp'' \<noteq> Some (VFloat64 x)) \<and>
   Claims (token_noexp\<lparr>Valid := True\<rparr>) ''aud'' = Some (VString ''client'') \<and>
   fst (verifyAppleIDToken example_env ''noexp'' ''client'' example_state)
     = Inr (Claims (token_noexp\<lparr>Valid := True\<rparr>)) \<and>
   fst (verifyAppleIDToken example_env ''noexp'' ''client'' example_state) \<noteq> Inl TokenExpired \<and>
   ''client'' \<noteq> ''elsewhere'' \<and>
   fst (verifyAppleIDToken example_env ''noexp'' ''elsewhere'' example_state)
     = Inl (InvalidAudience ''client'')"
proof -
  have f: "jwk_Fetch example_env appleKeysURL = Inr example_keys"
    by (simp add: example_defs)
  have wf: "nsec (time_Now example_env) < 1000000000"
    and ep: "0 \<le> sec (time_Now example_env)"
    by (simp_all add: example_defs)
  have p1: "fst (jwt_Parse example_env ''stale'' (keyfunc example_keys) example_state)
              = Inr (token_stale\<lparr>Valid := True\<rparr>)"
    by (simp add: example_defs jwt_Parse_def keyfunc_def LookupKeyID_def emit_def)
  have c1: "Claims (token_stale\<lparr>Valid := True\<rparr>) ''exp'' = Some (VFloat64 1001)"
    by (simp add: example_defs)
  have l1: "- (2 ^ 63) \<le> (1001::real)" and u1: "(1001::real) < 2 ^ 63 - 62135596800"
    by simp_all
  have o1: "real_of_int \<lfloor>1001::real\<rfloor> < seconds_of (time_Now example_env)"
    by (simp add: example_defs seconds_of_def)
  have p2: "fst (jwt_Parse example_env ''fresh'' (keyfunc example_keys) example_state)
              = Inr (token_fresh\<lparr>Valid := True\<rparr>)"
    by (simp add: example_defs jwt_Parse_def keyfunc_def LookupKeyID_def emit_def)
  have c2: "Claims (token_fresh\<lparr>Valid := True\<rparr>) ''exp'' = Some (VFloat64 2000)"
    by (simp add: example_defs)
  have l2: "- (2 ^ 63) \<le> (2000::real)" and u2: "(2000::real) < 2 ^ 63 - 62135596800"
    by simp_all
  have o2: "\<not> real_of_int \<lfloor>2000::real\<rfloor> < seconds_of (time_Now example_env)"
    by (simp add: example_defs seconds_of_def)
  have p3: "fst (jwt_Parse example_env ''farfuture'' (keyfunc example_keys) example_state)
              = Inr (token_farfuture\<lparr>Valid := True\<rparr>)"
    by (simp add: example_defs jwt_Parse_def keyfunc_def LookupKeyID_def emit_def)
  have c3: "Claims (token_farfuture\<lparr>Valid := True\<rparr>) ''exp''
              = Some (VFloat64 9223372000000000000)"
    by (simp add: example_defs)
  have l3: "2 ^ 63 - 62135596800 \<le> (9223372000000000000::real)"
    and u3: "(9223372000000000000::real) < 2 ^ 63"
    by simp_all
  have p4: "fst (jwt_Parse example_env ''noexp'' (keyfunc example_keys) example_state)
              = Inr (token_noexp\<lparr>Valid := True\<rparr>)"
    by (simp add: example_defs jwt_Parse_def keyfunc_def LookupKeyID_def emit_def)
  have c4: "\<forall>x. Claims (token_noexp\<lparr>Valid := True\<rparr>) ''exp'' \<noteq> Some (VFloat64 x)"
    by (simp add: example_defs)
  have a4: "Claims (token_noexp\<lparr>Valid := True\<rparr>) ''aud'' = Some (VString ''client'')"
    by (simp add: example_defs)
  have d4: "''client'' \<noteq> ''elsewhere''" by simp
  note T1 = expiry_checked_only_when_numeric[OF f p1, of "''client''" example_state]
  note T2 = expiry_checked_only_when_numeric[OF f p2, of "''client''" example_state]
  note T3 = expiry_checked_only_when_numeric[OF f p3, of "''client''" example_state]
  note T4 = expiry_checked_only_when_numeric[OF f p4, of "''client''" example_state]
  note T5 = expiry_checked_only_when_numeric[OF f p4, of "''elsewhere''" example_state]
  from T1 c1 l1 u1 wf have
    "(fst (verifyAppleIDToken example_env ''stale'' ''client'' example_state) = Inl TokenExpired)
       = (real_of_int (if 0 \<le> (1001::real) then \<lfloor>1001::real\<rfloor> else \<lceil>1001::real\<rceil>)
            < seconds_of (time_Now example_env))"
    by blast
  with o1 have r1:
    "fst (verifyAppleIDToken example_env ''stale'' ''client'' example_state) = Inl TokenExpired"
    by simp
  from T2 c2 l2 u2 wf have
    "(fst (verifyAppleIDToken example_env ''fresh'' ''client'' example_state) = Inl TokenExpired)
       = (real_of_int (if 0 \<le> (2000::real) then \<lfloor>2000::real\<rfloor> else \<lceil>2000::real\<rceil>)
            < seconds_of (time_Now example_env))"
    by blast
  with o2 have r2:
    "fst (verifyAppleIDToken example_env ''fresh'' ''client'' example_state) \<noteq> Inl TokenExpired"
    by simp
  from T3 c3 l3 u3 ep have r3:
    "fst (verifyAppleIDToken example_env ''farfuture'' ''client'' example_state)
       = Inl TokenExpired"
    by blast
  from T4 c4 a4 have r4:
    "fst (verifyAppleIDToken example_env ''noexp'' ''client'' example_state)
       = Inr (Claims (token_noexp\<lparr>Valid := True\<rparr>))"
    by simp
  from T4 c4 have r5:
    "fst (verifyAppleIDToken example_env ''noexp'' ''client'' example_state) \<noteq> Inl TokenExpired"
    by blast
  from T5 c4 a4 d4 have r6:
    "fst (verifyAppleIDToken example_env ''noexp'' ''elsewhere'' example_state)
       = Inl (InvalidAudience ''client'')"
    by blast
  from f wf ep p1 c1 l1 u1 o1 r1 p2 c2 l2 u2 o2 r2 p3 c3 l3 u3 r3 p4 c4 a4 r4 r5 d4 r6
  show ?thesis by blast
qed

text \<open>
  C4 as stated fails: the token \<open>noexp\<close> has no \<^verbatim>\<open>exp\<close> claim and passes
  verification.
\<close>

theorem exp_must_be_present_counterexample:
  "jwt_ParseUnverified example_env ''noexp'' = Inr token_noexp \<and>
   Claims token_noexp ''exp'' = None \<and>
   fst (verifyAppleIDToken example_env ''noexp'' ''client'' example_state)
     = Inr (Claims token_noexp)"
  by (simp add: example_defs verify_defs)

section \<open>The audience claim\<close>

text \<open>
  C5, as the code has it. For a token that the parser accepted and that passed the
  expiry check: an \<^verbatim>\<open>aud\<close> claim that is a string other than the expected audience
  fails with \<open>InvalidAudience\<close>; an \<^verbatim>\<open>aud\<close> that is absent or not a single string is
  not checked and the token verifies; so does a token whose \<^verbatim>\<open>aud\<close> is the expected
  string.
\<close>

theorem audience_checked_only_when_string:
  assumes fetch: "jwk_Fetch e appleKeysURL = Inr keys"
      and parse: "fst (jwt_Parse e tokenString (keyfunc keys) s') = Inr token"
      and fresh: "\<not> expiry_check_fails e (Claims token)"
  shows "(\<forall>a. Claims token ''aud'' = Some (VString a) \<and> a \<noteq> audience \<longrightarrow>
            fst (verifyAppleIDToken e tokenString audience s) = Inl (InvalidAudience a)) \<and>
         ((\<forall>a. Claims token ''aud'' \<noteq> Some (VString a)) \<longrightarrow>
            fst (verifyAppleIDToken e tokenString audience s) = Inr (Claims token)) \<and>
         (Claims token ''aud'' = Some (VString audience) \<longrightarrow>
            fst (verifyAppleIDToken e tokenString audience s) = Inr (Claims token))"
proof -
  note r = verify_after_parse[OF fetch parse, of audience s]
  have mismatch: "fst (verifyAppleIDToken e tokenString audience s) = Inl (InvalidAudience a)"
    if "Claims token ''aud'' = Some (VString a)" "a \<noteq> audience" for a
    using r fresh that by simp
  have skipped: "fst (verifyAppleIDToken e tokenString audience s) = Inr (Claims token)"
    if "\<forall>a. Claims token ''aud'' \<noteq> Some (VString a)"
    using r fresh that by (simp split: option.splits iface.splits)
  have agrees: "fst (verifyAppleIDToken e tokenString audience s) = Inr (Claims token)"
    if "Claims token ''aud'' = Some (VString audience)"
    using r fresh that by simp
  from mismatch skipped agrees show ?thesis by blast
qed

text \<open>
  The theorem at three tokens, one for each case: \<open>wrongaud\<close> (a different string),
  \<open>audlist\<close> (a list) and \<open>fresh\<close> (the expected string).
\<close>

theorem audience_checked_only_when_string_witness:
  "jwk_Fetch example_env appleKeysURL = Inr example_keys \<and>
   fst (jwt_Parse example_env ''wrongaud'' (keyfunc example_keys) example_state)
     = Inr (token_wrongaud\<lparr>Valid := True\<rparr>) \<and>
   \<not> expiry_check_fails example_env (Claims (token_wrongaud\<lparr>Valid := True\<rparr>)) \<and>
   Claims (token_wrongaud\<lparr>Valid := True\<rparr>) ''aud'' = Some (VString ''other'') \<and>
   ''other'' \<noteq> ''client'' \<and>
   fst (verifyAppleIDToken example_env ''wrongaud'' ''client'' example_state)
     = Inl (InvalidAudience ''other'') \<and>
   fst (jwt_Parse example_env ''audlist'' (keyfunc example_keys) example_state)
     = Inr (token_audlist\<lparr>Valid := True\<rparr>) \<and>
   \<not> expiry_check_fails example_env (Claims (token_audlist\<lparr>Valid := True\<rparr>)) \<and>
   Claims (token_audlist\<lparr>Valid := True\<rparr>) ''aud'' = Some (VSlice [VString ''other'']) \<and>
   fst (verifyAppleIDToken example_env ''audlist'' ''client'' example_state)
     = Inr (Claims (token_audlist\<lparr>Valid := True\<rparr>)) \<and>
   fst (jwt_Parse example_env ''fresh'' (keyfunc example_keys) example_state)
     = Inr (token_fresh\<lparr>Valid := True\<rparr>) \<and>
   \<not> expiry_check_fails example_env (Claims (token_fresh\<lparr>Valid := True\<rparr>)) \<and>
   Claims (token_fresh\<lparr>Valid := True\<rparr>) ''aud'' = Some (VString ''client'') \<and>
   fst (verifyAppleIDToken example_env ''fresh'' ''client'' example_state)
     = Inr (Claims (token_fresh\<lparr>Valid := True\<rparr>))"
proof -
  have f: "jwk_Fetch example_env appleKeysURL = Inr example_keys"
    by (simp add: example_defs)
  have p1: "fst (jwt_Parse example_env ''wrongaud'' (keyfunc example_keys) example_state)
              = Inr (token_wrongaud\<lparr>Valid := True\<rparr>)"
    by (simp add: example_defs verify_defs)
  have n1: "\<not> expiry_check_fails example_env (Claims (token_wrongaud\<lparr>Valid := True\<rparr>))"
    by (simp add: example_defs verify_defs expiry_check_fails_def)
  have a1: "Claims (token_wrongaud\<lparr>Valid := True\<rparr>) ''aud'' = Some (VString ''other'')"
    by (simp add: example_defs)
  have d1: "''other'' \<noteq> ''client''" by simp
  have p2: "fst (jwt_Parse example_env ''audlist'' (keyfunc example_keys) example_state)
              = Inr (token_audlist\<lparr>Valid := True\<rparr>)"
    by (simp add: example_defs verify_defs)
  have n2: "\<not> expiry_check_fails example_env (Claims (token_audlist\<lparr>Valid := True\<rparr>))"
    by (simp add: example_defs verify_defs expiry_check_fails_def)
  have a2: "Claims (token_audlist\<lparr>Valid := True\<rparr>) ''aud'' = Some (VSlice [VString ''other''])"
    by (simp add: example_defs)
  have p3: "fst (jwt_Parse example_env ''fresh'' (keyfunc example_keys) example_state)
              = Inr (token_fresh\<lparr>Valid := True\<rparr>)"
    by (simp add: example_defs verify_defs)
  have n3: "\<not> expiry_check_fails example_env (Claims (token_fresh\<lparr>Valid := True\<rparr>))"
    by (simp add: example_defs verify_defs expiry_check_fails_def)
  have a3: "Claims (token_fresh\<lparr>Valid := True\<rparr>) ''aud'' = Some (VString ''client'')"
    by (simp add: example_defs)
  from audience_checked_only_when_string[OF f p1 n1, of "''client''" example_state] a1 d1
  have r1: "fst (verifyAppleIDToken example_env ''wrongaud'' ''client'' example_state)
              = Inl (InvalidAudience ''other'')"
    by blast
  from audience_checked_only_when_string[OF f p2 n2, of "''client''" example_state] a2
  have r2: "fst (verifyAppleIDToken example_env ''audlist'' ''client'' example_state)
              = Inr (Claims (token_audlist\<lparr>Valid := True\<rparr>))"
    by simp
  from audience_checked_only_when_string[OF f p3 n3, of "''client''" example_state] a3
  have r3: "fst (verifyAppleIDToken example_env ''fresh'' ''client'' example_state)
              = Inr (Claims (token_fresh\<lparr>Valid := True\<rparr>))"
    by blast
  from f p1 n1 a1 d1 r1 p2 n2 a2 r2 p3 n3 a3 r3 show ?thesis by blast
qed

text \<open>
  C5 as stated fails: \<open>noaud\<close> has no \<^verbatim>\<open>aud\<close> claim, \<open>audlist\<close> has the list
  \<^verbatim>\<open>["other"]\<close>, and both verify for the expected audience \<open>client\<close>.
\<close>

theorem aud_must_match_counterexample:
  "jwt_ParseUnverified example_env ''noaud'' = Inr token_noaud \<and>
   Claims token_noaud ''aud'' = None \<and>
   fst (verifyAppleIDToken example_env ''noaud'' ''client'' example_state)
     = Inr (Claims token_noaud) \<and>
   jwt_ParseUnverified example_env ''audlist'' = Inr token_audlist \<and>
   Claims token_audlist ''aud'' = Some (VSlice [VString ''other'']) \<and>
   fst (verifyAppleIDToken example_env ''audlist'' ''client'' example_state)
     = Inr (Claims token_audlist)"
  by (simp add: example_defs verify_defs)

section \<open>What verification does to the state\<close>

text \<open>
  The key function leaves the state alone or records one key lookup; the parser
  passes that on; and a verification records one key-set fetch first. The
  package-level variables are never written.
\<close>

lemma keyfunc_state:
  "\<exists>evs. snd (keyfunc keys t s) = s\<lparr>trace := trace s @ evs\<rparr> \<and>
         list_all is_KeyLookup evs \<and> length evs \<le> 1"
proof (cases "snd (keyfunc keys t s) = s")
  case True
  then have "snd (keyfunc keys t s) = s\<lparr>trace := trace s @ []\<rparr>" by simp
  then show ?thesis by (intro exI[of _ "[]"]) simp
next
  case False
  then obtain keyID where "snd (keyfunc keys t s) = emit (KeyLookup keyID) s"
    by (auto simp: keyfunc_def split: if_splits option.splits iface.splits sum.splits)
  then have "snd (keyfunc keys t s) = s\<lparr>trace := trace s @ [KeyLookup keyID]\<rparr>"
    by (simp add: emit_def)
  then show ?thesis by (intro exI[of _ "[KeyLookup keyID]"]) simp
qed

lemma jwt_Parse_state:
  "\<exists>evs. snd (jwt_Parse e ts (keyfunc keys) s) = s\<lparr>trace := trace s @ evs\<rparr> \<and>
         list_all is_KeyLookup evs \<and> length evs \<le> 1"
proof (cases "jwt_ParseUnverified e ts")
  case (Inl msg)
  then have "snd (jwt_Parse e ts (keyfunc keys) s) = s\<lparr>trace := trace s @ []\<rparr>"
    by (simp add: jwt_Parse_def)
  then show ?thesis by (intro exI[of _ "[]"]) simp
next
  case (Inr t)
  then have "snd (jwt_Parse e ts (keyfunc keys) s) = snd (keyfunc keys t s)"
    by (simp add: jwt_Parse_def split: prod.splits sum.splits option.splits)
  with keyfunc_state[of keys t s] show ?thesis by simp
qed

lemma verify_state:
  "\<exists>evs. snd (verifyAppleIDToken e ts aud s)
           = s\<lparr>trace := trace s @ JWKFetch appleKeysURL # evs\<rparr> \<and>
         list_all is_KeyLookup evs \<and> length evs \<le> 1"
proof (cases "jwk_Fetch e appleKeysURL")
  case (Inl msg)
  then have "snd (verifyAppleIDToken e ts aud s)
               = s\<lparr>trace := trace s @ JWKFetch appleKeysURL # []\<rparr>"
    by (simp add: verifyAppleIDToken_def fetchAppleJWKSet_def emit_def)
  then show ?thesis by (intro exI[of _ "[]"]) simp
next
  case (Inr keys)
  let ?s1 = "emit (JWKFetch appleKeysURL) s"
  have "snd (verifyAppleIDToken e ts aud s) = snd (jwt_Parse e ts (keyfunc keys) ?s1)"
    using Inr
    by (simp add: verifyAppleIDToken_def fetchAppleJWKSet_def
        split: prod.splits sum.splits option.splits iface.splits)
  moreover obtain evs where
    "snd (jwt_Parse e ts (keyfunc keys) ?s1) = ?s1\<lparr>trace := trace ?s1 @ evs\<rparr>"
    "list_all is_KeyLookup evs" "length evs \<le> 1"
    using jwt_Parse_state[of e ts keys ?s1] by blast
  ultimately have "snd (verifyAppleIDToken e ts aud s)
                     = s\<lparr>trace := trace s @ JWKFetch appleKeysURL # evs\<rparr>"
    by (simp add: emit_def)
  with \<open>list_all is_KeyLookup evs\<close> \<open>length evs \<le> 1\<close> show ?thesis by blast
qed

lemma filter_JWKFetch_KeyLookup:
  "list_all is_KeyLookup evs \<Longrightarrow> filter is_JWKFetch evs = []"
  by (induction evs) (auto elim: is_KeyLookup.elims)

lemma filter_InitiateAuth_KeyLookup:
  "list_all is_KeyLookup evs \<Longrightarrow> filter is_InitiateAuth evs = []"
  by (induction evs) (auto elim: is_KeyLookup.elims)

lemma verify_fetches: "fetches (snd (verifyAppleIDToken e ts aud s)) = fetches s + 1"
proof -
  obtain evs where
    "snd (verifyAppleIDToken e ts aud s) = s\<lparr>trace := trace s @ JWKFetch appleKeysURL # evs\<rparr>"
    "list_all is_KeyLookup evs"
    using verify_state[of e ts aud s] by blast
  then show ?thesis by (simp add: fetches_def filter_JWKFetch_KeyLookup)
qed

lemma verify_exchanges: "exchanges (snd (verifyAppleIDToken e ts aud s)) = exchanges s"
proof -
  obtain evs where
    "snd (verifyAppleIDToken e ts aud s) = s\<lparr>trace := trace s @ JWKFetch appleKeysURL # evs\<rparr>"
    "list_all is_KeyLookup evs"
    using verify_state[of e ts aud s] by blast
  then show ?thesis by (simp add: exchanges_def filter_InitiateAuth_KeyLookup)
qed

section \<open>Key-set fetches\<close>

text \<open>
  C2, as the code has it. There is no cached key set: every call of
  \<^verbatim>\<open>verifyAppleIDToken\<close> fetches the key set exactly once, before it looks at the
  token. When the fetch succeeds and the token's key id is not in the fetched set,
  nothing is fetched again: the call fails with the no-matching-key error after
  that one fetch and one lookup.
\<close>

theorem one_fetch_per_verification:
  "fetches (snd (verifyAppleIDToken e tokenString audience s)) = fetches s + 1 \<and>
   (\<forall>keys t keyID.
      jwk_Fetch e appleKeysURL = Inr keys \<longrightarrow>
      jwt_ParseUnverified e tokenString = Inr t \<longrightarrow>
      is_SigningMethodECDSA (Method t) \<longrightarrow>
      Header t ''kid'' = Some (VString keyID) \<longrightarrow>
      LookupKeyID keys keyID = None \<longrightarrow>
      verifyAppleIDToken e tokenString audience s =
        (Inl (ValidationFailed (KeyfuncError (NoMatchingJWK keyID))),
         s\<lparr>trace := trace s @ [JWKFetch appleKeysURL, KeyLookup keyID]\<rparr>))"
proof -
  have miss: "verifyAppleIDToken e tokenString audience s =
                (Inl (ValidationFailed (KeyfuncError (NoMatchingJWK keyID))),
                 s\<lparr>trace := trace s @ [JWKFetch appleKeysURL, KeyLookup keyID]\<rparr>)"
    if "jwk_Fetch e appleKeysURL = Inr keys" "jwt_ParseUnverified e tokenString = Inr t"
       "is_SigningMethodECDSA (Method t)" "Header t ''kid'' = Some (VString keyID)"
       "LookupKeyID keys keyID = None" for keys t keyID
    using that
    by (simp add: verifyAppleIDToken_def fetchAppleJWKSet_def jwt_Parse_def keyfunc_def
        emit_def)
  from verify_fetches[of e tokenString audience s] miss show ?thesis by blast
qed

text \<open>The theorem at the token \<open>rotated\<close>, whose key id \<open>k9\<close> is not in the set.\<close>

theorem one_fetch_per_verification_witness:
  "jwk_Fetch example_env appleKeysURL = Inr example_keys \<and>
   jwt_ParseUnverified example_env ''rotated'' = Inr token_rotated \<and>
   is_SigningMethodECDSA (Method token_rotated) \<and>
   Header token_rotated ''kid'' = Some (VString ''k9'') \<and>
   LookupKeyID example_keys ''k9'' = None \<and>
   fetches (snd (verifyAppleIDToken example_env ''rotated'' ''client'' example_state))
     = fetches example_state + 1 \<and>
   verifyAppleIDToken example_env ''rotated'' ''client'' example_state =
     (Inl (ValidationFailed (KeyfuncError (NoMatchingJWK ''k9''))),
      example_state\<lparr>trace := trace example_state @ [JWKFetch appleKeysURL, KeyLookup ''k9'']\<rparr>)"
proof -
  have h1: "jwk_Fetch example_env appleKeysURL = Inr example_keys"
    by (simp add: example_defs)
  have h2: "jwt_ParseUnverified example_env ''rotated'' = Inr token_rotated"
    by (simp add: example_defs)
  have h3: "is_SigningMethodECDSA (Method token_rotated)"
    by (simp add: example_defs)
  have h4: "Header token_rotated ''kid'' = Some (VString ''k9'')"
    by (simp add: example_defs)
  have h5: "LookupKeyID example_keys ''k9'' = None"
    by (simp add: example_defs LookupKeyID_def)
  note T = one_fetch_per_verification[of example_env "''rotated''" "''client''" example_state]
  from T have a:
    "fetches (snd (verifyAppleIDToken example_env ''rotated'' ''client'' example_state))
       = fetches example_state + 1"
    by blast
  from T h1 h2 h3 h4 h5 have b:
    "verifyAppleIDToken example_env ''rotated'' ''client'' example_state =
       (Inl (ValidationFailed (KeyfuncError (NoMatchingJWK ''k9''))),
        example_state\<lparr>trace := trace example_state @ [JWKFetch appleKeysURL, KeyLookup ''k9'']\<rparr>)"
    by blast
  from h1 h2 h3 h4 h5 a b show ?thesis by blast
qed

text \<open>
  C2 as stated fails. The key id \<open>k1\<close> of the token \<open>fresh\<close> is in the key set, and
  still each verification of it fetches the key set: one fetch after the first
  call, two after the second. And for the unknown key id of \<open>rotated\<close> the only
  fetch is the one made before the lookup; none follows the miss.
\<close>

theorem no_fetch_on_every_call_counterexample:
  "LookupKeyID example_keys ''k1'' = Some \<lparr>KeyID = ''k1'', KeyRaw = Inr (ECDSAPublicKey 1 2)\<rparr> \<and>
   fetches example_state = 0 \<and>
   fetches (snd (verifyAppleIDToken example_env ''fresh'' ''client'' example_state)) = 1 \<and>
   fetches (snd (verifyAppleIDToken example_env ''fresh'' ''client''
              (snd (verifyAppleIDToken example_env ''fresh'' ''client'' example_state)))) = 2 \<and>
   trace (snd (verifyAppleIDToken example_env ''rotated'' ''client'' example_state))
     = [JWKFetch appleKeysURL, KeyLookup ''k9'']"
  by (simp add: example_defs verify_defs fetches_def)

section \<open>The algorithm check\<close>

text \<open>
  C3, as the code has it. The key set is fetched before the token is parsed. When
  that fetch succeeds, a token that decodes with a method other than ECDSA fails
  with the unexpected-signing-method error, and the only event of the call is the
  fetch: no key is looked up.
\<close>

theorem non_ecdsa_rejected_before_lookup:
  assumes fetch: "jwk_Fetch e appleKeysURL = Inr keys"
      and dec: "jwt_ParseUnverified e tokenString = Inr t"
      and alg: "\<not> is_SigningMethodECDSA (Method t)"
  shows "verifyAppleIDToken e tokenString audience s =
           (Inl (ValidationFailed (KeyfuncError (UnexpectedSigningMethod (Header t ''alg'')))),
            s\<lparr>trace := trace s @ [JWKFetch appleKeysURL]\<rparr>) \<and>
         filter is_KeyLookup (trace (snd (verifyAppleIDToken e tokenString audience s)))
           = filter is_KeyLookup (trace s)"
proof -
  have kf: "keyfunc keys t (emit (JWKFetch appleKeysURL) s) =
              (Inl (UnexpectedSigningMethod (Header t ''alg'')), emit (JWKFetch appleKeysURL) s)"
    using alg by (simp add: keyfunc_def)
  have res: "verifyAppleIDToken e tokenString audience s =
               (Inl (ValidationFailed (KeyfuncError (UnexpectedSigningMethod (Header t ''alg'')))),
                s\<lparr>trace := trace s @ [JWKFetch appleKeysURL]\<rparr>)"
    using fetch dec kf
    by (simp add: verifyAppleIDToken_def fetchAppleJWKSet_def jwt_Parse_def emit_def)
  then show ?thesis by simp
qed

text \<open>The theorem at the token \<open>rsa\<close>, which declares \<^verbatim>\<open>RS256\<close>.\<close>

theorem non_ecdsa_rejected_before_lookup_witness:
  "jwk_Fetch example_env appleKeysURL = Inr example_keys \<and>
   jwt_ParseUnverified example_env ''rsa'' = Inr token_rsa \<and>
   \<not> is_SigningMethodECDSA (Method token_rsa) \<and>
   verifyAppleIDToken example_env ''rsa'' ''client'' example_state =
     (Inl (ValidationFailed (KeyfuncError (UnexpectedSigningMethod (Header token_rsa ''alg'')))),
      example_state\<lparr>trace := trace example_state @ [JWKFetch appleKeysURL]\<rparr>) \<and>
   filter is_KeyLookup
       (trace (snd (verifyAppleIDToken example_env ''rsa'' ''client'' example_state)))
     = filter is_KeyLookup (trace example_state)"
proof -
  have h1: "jwk_Fetch example_env appleKeysURL = Inr example_keys"
    by (simp add: example_defs)
  have h2: "jwt_ParseUnverified example_env ''rsa'' = Inr token_rsa"
    by (simp add: example_defs)
  have h3: "\<not> is_SigningMethodECDSA (Method token_rsa)"
    by (simp add: example_defs)
  from non_ecdsa_rejected_before_lookup[OF h1 h2 h3, of "''client''" example_state] h1 h2 h3
  show ?thesis by blast
qed

text \<open>
  C3 as stated fails: with the key-set endpoint unreachable the same token is
  answered with the fetch error, not with the unexpected-signing-method error.
\<close>

theorem non_ecdsa_always_unsupported_counterexample:
  "jwt_ParseUnverified example_env_offline ''rsa'' = Inr token_rsa \<and>
   \<not> is_SigningMethodECDSA (Method token_rsa) \<and>
   verifyAppleIDToken example_env_offline ''rsa'' ''client'' example_state =
     (Inl (FetchFailed ''connection refused''),
      example_state\<lparr>trace := [JWKFetch appleKeysURL]\<rparr>)"
  by (simp add: example_defs verify_defs)

section \<open>Verification before exchange\<close>

text \<open>
  C6. On both provider paths a verification error ends the request with status
  401 and a plain-text body, and the credential backend is not called: the trace
  holds no more \<open>InitiateAuth\<close> events after the handler than before it. Conversely,
  whenever a handler did call the backend, the request body was decoded and the
  verification of its token had succeeded.
\<close>

theorem exchange_only_after_verification:
  "(\<forall>tok err s1.
      json_Unmarshal e reqBody = Inr tok \<longrightarrow>
      verifyAppleIDToken e tok (os_Getenv e ''APPLE_CLIENT_ID'') s = (Inl err, s1) \<longrightarrow>
      (\<exists>msg. fst (loginWithAppleHandler e reqBody s) = Response 401 (Text msg)) \<and>
      exchanges (snd (loginWithAppleHandler e reqBody s)) = exchanges s) \<and>
   (\<forall>tok err.
      json_Unmarshal e reqBody = Inr tok \<longrightarrow>
      idtoken_Validate e tok (googleClientID s) = Inl err \<longrightarrow>
      (\<exists>msg. fst (loginWithGoogleHandler e reqBody s) = Response 401 (Text msg)) \<and>
      exchanges (snd (loginWithGoogleHandler e reqBody s)) = exchanges s) \<and>
   (exchanges (snd (loginWithAppleHandler e reqBody s)) \<noteq> exchanges s \<longrightarrow>
      (\<exists>tok claims s1.
         json_Unmarshal e reqBody = Inr tok \<and>
         verifyAppleIDToken e tok (os_Getenv e ''APPLE_CLIENT_ID'') s = (Inr claims, s1))) \<and>
   (exchanges (snd (loginWithGoogleHandler e reqBody s)) \<noteq> exchanges s \<longrightarrow>
      (\<exists>tok payload.
         json_Unmarshal e reqBody = Inr tok \<and>
         idtoken_Validate e tok (googleClientID s) = Inr payload))"
proof -
  have apple:
    "(\<exists>msg. fst (loginWithAppleHandler e reqBody s) = Response 401 (Text msg)) \<and>
     exchanges (snd (loginWithAppleHandler e reqBody s)) = exchanges s"
    if u: "json_Unmarshal e reqBody = Inr tok"
      and v: "verifyAppleIDToken e tok (os_Getenv e ''APPLE_CLIENT_ID'') s = (Inl err, s1)"
    for tok err s1
  proof -
    have h: \<open>loginWithAppleHandler e reqBody s =
               (http_Error
                  (''{"error": "apple token verification failed: '' @ Error e err @ ''"}'')
                  401, s1)\<close>
      using u v by (simp add: loginWithAppleHandler_def)
    have "s1 = snd (verifyAppleIDToken e tok (os_Getenv e ''APPLE_CLIENT_ID'') s)"
      using v by simp
    then have "exchanges s1 = exchanges s"
      by (simp add: verify_exchanges)
    with h show ?thesis by (simp add: http_Error_def)
  qed
  have google:
    "(\<exists>msg. fst (loginWithGoogleHandler e reqBody s) = Response 401 (Text msg)) \<and>
     exchanges (snd (loginWithGoogleHandler e reqBody s)) = exchanges s"
    if u: "json_Unmarshal e reqBody = Inr tok"
      and v: "idtoken_Validate e tok (googleClientID s) = Inl err"
    for tok err
    using u v by (simp add: loginWithGoogleHandler_def http_Error_def)
  have apple_only:
    "\<exists>tok claims s1.
       json_Unmarshal e reqBody = Inr tok \<and>
       verifyAppleIDToken e tok (os_Getenv e ''APPLE_CLIENT_ID'') s = (Inr claims, s1)"
    if called: "exchanges (snd (loginWithAppleHandler e reqBody s)) \<noteq> exchanges s"
  proof (cases "json_Unmarshal e reqBody")
    case (Inl msg)
    then have "snd (loginWithAppleHandler e reqBody s) = s"
      by (simp add: loginWithAppleHandler_def)
    with called show ?thesis by simp
  next
    case u: (Inr tok)
    obtain r s1 where
      v: "verifyAppleIDToken e tok (os_Getenv e ''APPLE_CLIENT_ID'') s = (r, s1)"
      by (cases "verifyAppleIDToken e tok (os_Getenv e ''APPLE_CLIENT_ID'') s")
    show ?thesis
    proof (cases r)
      case (Inl err)
      with apple[OF u] v called show ?thesis by simp
    next
      case (Inr claims)
      with u v show ?thesis by simp
    qed
  qed
  have google_only:
    "\<exists>tok payload.
       json_Unmarshal e reqBody = Inr tok \<and>
       idtoken_Validate e tok (googleClientID s) = Inr payload"
    if called: "exchanges (snd (loginWithGoogleHandler e reqBody s)) \<noteq> exchanges s"
  proof (cases "json_Unmarshal e reqBody")
    case (Inl msg)
    then have "snd (loginWithGoogleHandler e reqBody s) = s"
      by (simp add: loginWithGoogleHandler_def)
    with called show ?thesis by simp
  next
    case u: (Inr tok)
    show ?thesis
    proof (cases "idtoken_Validate e tok (googleClientID s)")
      case (Inl err)
      with google[OF u] called show ?thesis by simp
    next
      case (Inr payload)
      with u show ?thesis by simp
    qed
  qed
  from apple google apple_only google_only show ?thesis by blast
qed

text \<open>
  The theorem at four requests: an Apple request carrying the token \<open>rsa\<close> and a
  Google request carrying a token the validator rejects, neither of which reaches
  the backend; and an Apple request carrying \<open>fresh\<close> and a Google request carrying a
  token the validator accepts, both of which do.
\<close>

theorem exchange_only_after_verification_witness:
  \<open>json_Unmarshal example_env (example_body ''rsa'') = Inr ''rsa'' \<and>
   verifyAppleIDToken example_env ''rsa'' (os_Getenv example_env ''APPLE_CLIENT_ID'')
       example_state
     = (Inl (ValidationFailed (KeyfuncError
          (UnexpectedSigningMethod (Some (VString ''RS256''))))),
        example_state\<lparr>trace := [JWKFetch appleKeysURL]\<rparr>) \<and>
   (\<exists>msg. fst (loginWithAppleHandler example_env (example_body ''rsa'') example_state)
            = Response 401 (Text msg)) \<and>
   exchanges (snd (loginWithAppleHandler example_env (example_body ''rsa'') example_state))
     = exchanges example_state \<and>
   json_Unmarshal example_env (example_body ''gstale'') = Inr ''gstale'' \<and>
   idtoken_Validate example_env ''gstale'' (googleClientID example_state)
     = Inl ''idtoken: token expired'' \<and>
   (\<exists>msg. fst (loginWithGoogleHandler example_env (example_body ''gstale'') example_state)
            = Response 401 (Text msg)) \<and>
   exchanges (snd (loginWithGoogleHandler example_env (example_body ''gstale'') example_state))
     = exchanges example_state \<and>
   exchanges (snd (loginWithAppleHandler example_env (example_body ''fresh'') example_state))
     \<noteq> exchanges example_state \<and>
   (\<exists>tok claims s1.
      json_Unmarshal example_env (example_body ''fresh'') = Inr tok \<and>
      verifyAppleIDToken example_env tok (os_Getenv example_env ''APPLE_CLIENT_ID'')
          example_state = (Inr claims, s1)) \<and>
   exchanges (snd (loginWithGoogleHandler example_env (example_body ''gfresh'') example_state))
     \<noteq> exchanges example_state \<and>
   (\<exists>tok payload.
      json_Unmarshal example_env (example_body ''gfresh'') = Inr tok \<and>
      idtoken_Validate example_env tok (googleClientID example_state) = Inr payload)\<close>
proof -
  have a1: "json_Unmarshal example_env (example_body ''rsa'') = Inr ''rsa''"
    by (simp add: example_defs)
  have a2: "verifyAppleIDToken example_env ''rsa'' (os_Getenv example_env ''APPLE_CLIENT_ID'')
              example_state
            = (Inl (ValidationFailed (KeyfuncError
                 (UnexpectedSigningMethod (Some (VString ''RS256''))))),
               example_state\<lparr>trace := [JWKFetch appleKeysURL]\<rparr>)"
    by (simp add: example_defs verify_defs)
  have g1: "json_Unmarshal example_env (example_body ''gstale'') = Inr ''gstale''"
    by (simp add: example_defs)
  have g2: "idtoken_Validate example_env ''gstale'' (googleClientID example_state)
              = Inl ''idtoken: token expired''"
    by (simp add: example_defs)
  have a3: "exchanges (snd (loginWithAppleHandler example_env (example_body ''fresh'')
                              example_state)) \<noteq> exchanges example_state"
    by (simp add: example_defs verify_defs loginWithAppleHandler_def exchanges_def
        Sprintf_v_def)
  have g3: "exchanges (snd (loginWithGoogleHandler example_env (example_body ''gfresh'')
                              example_state)) \<noteq> exchanges example_state"
    by (simp add: example_defs loginWithGoogleHandler_def exchanges_def emit_def
        http_Error_def)
  note T = exchange_only_after_verification[of example_env _ example_state]
  from T[of "example_body ''rsa''"] a1 a2 have ra:
    "(\<exists>msg. fst (loginWithAppleHandler example_env (example_body ''rsa'') example_state)
             = Response 401 (Text msg)) \<and>
     exchanges (snd (loginWithAppleHandler example_env (example_body ''rsa'') example_state))
       = exchanges example_state"
    by blast
  from T[of "example_body ''gstale''"] g1 g2 have rg:
    "(\<exists>msg. fst (loginWithGoogleHandler example_env (example_body ''gstale'') example_state)
             = Response 401 (Text msg)) \<and>
     exchanges (snd (loginWithGoogleHandler example_env (example_body ''gstale'') example_state))
       = exchanges example_state"
    by blast
  from T[of "example_body ''fresh''"] a3 have rf:
    "\<exists>tok claims s1.
       json_Unmarshal example_env (example_body ''fresh'') = Inr tok \<and>
       verifyAppleIDToken example_env tok (os_Getenv example_env ''APPLE_CLIENT_ID'')
           example_state = (Inr claims, s1)"
    by blast
  from T[of "example_body ''gfresh''"] g3 have rh:
    "\<exists>tok payload.
       json_Unmarshal example_env (example_body ''gfresh'') = Inr tok \<and>
       idtoken_Validate example_env tok (googleClientID example_state) = Inr payload"
    by blast
  from a1 a2 ra g1 g2 rg a3 rf g3 rh show ?thesis by blast
qed

section \<open>Degraded mode of the Apple handler\<close>

text \<open>
  C7. When the Apple token verifies and the \<^verbatim>\<open>InitiateAuth\<close> call returns an error,
  the handler answers 200 with the single member \<^verbatim>\<open>message\<close>, whose text names the
  \<^verbatim>\<open>email\<close> claim as \<^verbatim>\<open>%v\<close> prints it: the claim itself when it is a string.
\<close>

theorem apple_verified_only_response:
  assumes u: "json_Unmarshal e reqBody = Inr tok"
      and v: "verifyAppleIDToken e tok (os_Getenv e ''APPLE_CLIENT_ID'') s = (Inr claims, s1)"
      and x: "cognito_InitiateAuth e
                \<lparr>AuthFlow = ''CUSTOM_AUTH'', ClientId = clientIDApple s1,
                 AuthParameters = [(''USERNAME'', Sprintf_v e (claims ''email''))]\<rparr> = Inl err"
  shows "fst (loginWithAppleHandler e reqBody s) =
           Response 200 (JSON [(''message'',
             ''Apple login verified for '' @ Sprintf_v e (claims ''email'')
               @ '' (Cognito not configured)'')]) \<and>
         (\<forall>email. claims ''email'' = Some (VString email) \<longrightarrow>
            fst (loginWithAppleHandler e reqBody s) =
              Response 200 (JSON [(''message'',
                ''Apple login verified for '' @ email @ '' (Cognito not configured)'')]))"
proof -
  have r: "fst (loginWithAppleHandler e reqBody s) =
             Response 200 (JSON [(''message'',
               ''Apple login verified for '' @ Sprintf_v e (claims ''email'')
                 @ '' (Cognito not configured)'')])"
    using u v x by (simp add: loginWithAppleHandler_def Let_def)
  have "Sprintf_v e (claims ''email'') = email"
    if "claims ''email'' = Some (VString email)" for email
    using that by (simp add: Sprintf_v_def)
  with r show ?thesis by simp
qed

text \<open>The theorem at a request carrying the token \<open>fresh\<close>, with no backend.\<close>

theorem apple_verified_only_response_witness:
  \<open>json_Unmarshal example_env (example_body ''fresh'') = Inr ''fresh'' \<and>
   verifyAppleIDToken example_env ''fresh'' (os_Getenv example_env ''APPLE_CLIENT_ID'')
       example_state
     = (Inr (Claims token_fresh),
        example_state\<lparr>trace := [JWKFetch appleKeysURL, KeyLookup ''k1'']\<rparr>) \<and>
   cognito_InitiateAuth example_env
       \<lparr>AuthFlow = ''CUSTOM_AUTH'',
        ClientId = clientIDApple
          (example_state\<lparr>trace := [JWKFetch appleKeysURL, KeyLookup ''k1'']\<rparr>),
        AuthParameters =
          [(''USERNAME'', Sprintf_v example_env (Claims token_fresh ''email''))]\<rparr>
     = Inl ''operation error: missing region'' \<and>
   Claims token_fresh ''email'' = Some (VString ''ann@example.com'') \<and>
   fst (loginWithAppleHandler example_env (example_body ''fresh'') example_state) =
     Response 200 (JSON [(''message'',
       ''Apple login verified for ann@example.com (Cognito not configured)'')])\<close>
proof -
  have u: "json_Unmarshal example_env (example_body ''fresh'') = Inr ''fresh''"
    by (simp add: example_defs)
  have v: "verifyAppleIDToken example_env ''fresh'' (os_Getenv example_env ''APPLE_CLIENT_ID'')
             example_state
           = (Inr (Claims token_fresh),
              example_state\<lparr>trace := [JWKFetch appleKeysURL, KeyLookup ''k1'']\<rparr>)"
    by (simp add: example_defs verify_defs)
  have x: "cognito_InitiateAuth example_env
             \<lparr>AuthFlow = ''CUSTOM_AUTH'',
              ClientId = clientIDApple
                (example_state\<lparr>trace := [JWKFetch appleKeysURL, KeyLookup ''k1'']\<rparr>),
              AuthParameters =
                [(''USERNAME'', Sprintf_v example_env (Claims token_fresh ''email''))]\<rparr>
           = Inl ''operation error: missing region''"
    by (simp add: example_defs)
  have m: "Claims token_fresh ''email'' = Some (VString ''ann@example.com'')"
    by (simp add: example_defs)
  from apple_verified_only_response[OF u v x] m
  have "fst (loginWithAppleHandler example_env (example_body ''fresh'') example_state) =
          Response 200 (JSON [(''message'',
            ''Apple login verified for '' @ ''ann@example.com''
              @ '' (Cognito not configured)'')])"
    by blast
  then have r:
    "fst (loginWithAppleHandler example_env (example_body ''fresh'') example_state) =
       Response 200 (JSON [(''message'',
         ''Apple login verified for ann@example.com (Cognito not configured)'')])"
    by simp
  from u v x m r show ?thesis by blast
qed

section \<open>The Google handler\<close>

text \<open>
  C8, evaluated. A request whose body is not JSON is answered with status 400 and
  the plain-text line \<^verbatim>\<open>invalid request body\<close>, and a rejected token with status 401
  and a plain-text line; neither body is a JSON object with an \<^verbatim>\<open>error\<close> member. The
  Apple handler answers the same malformed request with the text
  \<^verbatim>\<open>{"error": "invalid request body"}\<close>. With a backend that issues tokens, a valid
  request is answered with the three token members.
\<close>

theorem google_error_bodies_are_plain_text:
  \<open>json_Unmarshal example_env ''junk'' = Inl ''invalid character in request body'' \<and>
   loginWithGoogleHandler example_env ''junk'' example_state =
     (Response 400 (Text (''invalid request body'' @ [CHR 0x0A])), example_state) \<and>
   loginWithGoogleHandler example_env (example_body ''gstale'') example_state =
     (Response 401 (Text (''invalid google token: idtoken: token expired'' @ [CHR 0x0A])),
      example_state) \<and>
   fst (loginWithAppleHandler example_env ''junk'' example_state) =
     Response 400 (Text (''{"error": "invalid request body"}'' @ [CHR 0x0A])) \<and>
   fst (loginWithGoogleHandler example_env_cognito (example_body ''gfresh'') example_state) =
     Response 200 (JSON [(''access_token'', ''at''), (''id_token'', ''it''),
                         (''refresh_token'', ''rt'')])\<close>
  by (simp add: example_defs loginWithGoogleHandler_def loginWithAppleHandler_def
      http_Error_def emit_def aws_ToString_def)

text \<open>
  C10. When the Google token validates and its payload has no \<^verbatim>\<open>email\<close> claim of
  string type, the unchecked type assertion panics: the handler writes no response
  and the backend is not called. So whenever the handler does write a response
  after a successful validation, the payload carried a string \<^verbatim>\<open>email\<close>.
\<close>

theorem google_panics_without_string_email:
  assumes u: "json_Unmarshal e reqBody = Inr tok"
      and v: "idtoken_Validate e tok (googleClientID s) = Inr payload"
  shows "((\<forall>email. PayloadClaims payload ''email'' \<noteq> Some (VString email)) \<longrightarrow>
            (\<exists>msg. loginWithGoogleHandler e reqBody s = (Panic msg, s))) \<and>
         (\<forall>code b. fst (loginWithGoogleHandler e reqBody s) = Response code b \<longrightarrow>
            (\<exists>email. PayloadClaims payload ''email'' = Some (VString email)))"
proof -
  have panics: "\<exists>msg. loginWithGoogleHandler e reqBody s = (Panic msg, s)"
    if "\<forall>email. PayloadClaims payload ''email'' \<noteq> Some (VString email)"
    using u v that
    by (simp add: loginWithGoogleHandler_def split: option.splits iface.splits)
  have "\<exists>email. PayloadClaims payload ''email'' = Some (VString email)"
    if r: "fst (loginWithGoogleHandler e reqBody s) = Response code b" for code b
  proof (rule ccontr)
    assume "\<not> (\<exists>email. PayloadClaims payload ''email'' = Some (VString email))"
    then have "\<forall>email. PayloadClaims payload ''email'' \<noteq> Some (VString email)" by simp
    from panics[OF this] r show False by auto
  qed
  with panics show ?thesis by blast
qed

text \<open>The theorem at a request whose validated payload has no claims at all.\<close>

theorem google_panics_without_string_email_witness:
  "json_Unmarshal example_env (example_body ''gnomail'') = Inr ''gnomail'' \<and>
   idtoken_Validate example_env ''gnomail'' (googleClientID example_state)
     = Inr \<lparr>PayloadClaims = Map.empty\<rparr> \<and>
   (\<forall>email. PayloadClaims \<lparr>PayloadClaims = Map.empty\<rparr> ''email'' \<noteq> Some (VString email)) \<and>
   (\<exists>msg. loginWithGoogleHandler example_env (example_body ''gnomail'') example_state
            = (Panic msg, example_state))"
proof -
  have u: "json_Unmarshal example_env (example_body ''gnomail'') = Inr ''gnomail''"
    by (simp add: example_defs)
  have v: "idtoken_Validate example_env ''gnomail'' (googleClientID example_state)
             = Inr \<lparr>PayloadClaims = Map.empty\<rparr>"
    by (simp add: example_defs)
  have n: "\<forall>email. PayloadClaims \<lparr>PayloadClaims = Map.empty\<rparr> ''email'' \<noteq> Some (VString email)"
    by simp
  from google_panics_without_string_email[OF u v] n
  have "\<exists>msg. loginWithGoogleHandler example_env (example_body ''gnomail'') example_state
                = (Panic msg, example_state)"
    by blast
  with u v n show ?thesis by blast
qed

section \<open>Determinism and frame\<close>

lemma verify_parse_failed:
  assumes fetch: "jwk_Fetch e appleKeysURL = Inr keys"
      and parse: "fst (jwt_Parse e ts (keyfunc keys) s') = Inl err"
  shows "fst (verifyAppleIDToken e ts aud s) = Inl (ValidationFailed err)"
proof -
  let ?s1 = "emit (JWKFetch appleKeysURL) s"
  have "fst (jwt_Parse e ts (keyfunc keys) ?s1) = Inl err"
    using parse jwt_Parse_keyfunc_fst[of e ts keys ?s1 s'] by simp
  then obtain s2 where "jwt_Parse e ts (keyfunc keys) ?s1 = (Inl err, s2)"
    by (cases "jwt_Parse e ts (keyfunc keys) ?s1") simp
  with fetch show ?thesis
    by (simp add: verifyAppleIDToken_def fetchAppleJWKSet_def)
qed

lemma verify_fst_state:
  "fst (verifyAppleIDToken e ts aud s) = fst (verifyAppleIDToken e ts aud s')"
proof (cases "jwk_Fetch e appleKeysURL")
  case (Inl msg)
  then show ?thesis by (simp add: verifyAppleIDToken_def fetchAppleJWKSet_def)
next
  case fetch: (Inr keys)
  show ?thesis
  proof (cases "fst (jwt_Parse e ts (keyfunc keys) s)")
    case (Inl err)
    from verify_parse_failed[OF fetch Inl, of aud s] verify_parse_failed[OF fetch Inl, of aud s']
    show ?thesis by simp
  next
    case (Inr token)
    from verify_after_parse[OF fetch Inr, of aud s] verify_after_parse[OF fetch Inr, of aud s']
    show ?thesis by simp
  qed
qed

lemma verify_env_cong:
  assumes "jwk_Fetch e1 appleKeysURL = jwk_Fetch e2 appleKeysURL"
      and "jwt_ParseUnverified e1 ts = jwt_ParseUnverified e2 ts"
      and "jwt_Verify e1 = jwt_Verify e2"
      and "jwt_ClaimsValid e1 = jwt_ClaimsValid e2"
      and "time_Now e1 = time_Now e2"
      and "int64_overflow e1 = int64_overflow e2"
  shows "verifyAppleIDToken e1 ts aud s = verifyAppleIDToken e2 ts aud s"
proof -
  have parse: "jwt_Parse e1 ts kf s' = jwt_Parse e2 ts kf s'" for kf s'
    using assms(2,3,4)
    by (simp add: jwt_Parse_def split: sum.splits prod.splits option.splits)
  have fetch: "fetchAppleJWKSet e1 s = fetchAppleJWKSet e2 s"
    using assms(1) by (simp add: fetchAppleJWKSet_def)
  show ?thesis
    using assms(5,6)
    by (simp add: verifyAppleIDToken_def parse fetch
        split: sum.splits prod.splits option.splits iface.splits)
qed

text \<open>
  C9. The result of a verification is a function of the token string, the key set
  the endpoint returns, the library's decoding and validation, the current time and
  the expected audience: two runs that agree on these give the same result, whatever
  the rest of the environment and whatever state they start from. A run writes none
  of the package-level variables; it only appends its key-set fetch, and at most one
  key lookup, to the trace.
\<close>

theorem verification_is_deterministic:
  assumes "jwk_Fetch e1 appleKeysURL = jwk_Fetch e2 appleKeysURL"
      and "jwt_ParseUnverified e1 tokenString = jwt_ParseUnverified e2 tokenString"
      and "jwt_Verify e1 = jwt_Verify e2"
      and "jwt_ClaimsValid e1 = jwt_ClaimsValid e2"
      and "time_Now e1 = time_Now e2"
      and "int64_overflow e1 = int64_overflow e2"
  shows "fst (verifyAppleIDToken e1 tokenString audience s1)
           = fst (verifyAppleIDToken e2 tokenString audience s2) \<and>
         (snd (verifyAppleIDToken e1 tokenString audience s1))\<lparr>trace := trace s1\<rparr> = s1 \<and>
         (\<exists>evs. trace (snd (verifyAppleIDToken e1 tokenString audience s1))
                  = trace s1 @ JWKFetch appleKeysURL # evs \<and>
                list_all is_KeyLookup evs \<and> length evs \<le> 1)"
proof -
  have "fst (verifyAppleIDToken e1 tokenString audience s1)
          = fst (verifyAppleIDToken e2 tokenString audience s1)"
    using verify_env_cong[OF assms] by simp
  also have "\<dots> = fst (verifyAppleIDToken e2 tokenString audience s2)"
    by (rule verify_fst_state)
  finally have same: "fst (verifyAppleIDToken e1 tokenString audience s1)
                        = fst (verifyAppleIDToken e2 tokenString audience s2)" .
  obtain evs where st:
    "snd (verifyAppleIDToken e1 tokenString audience s1)
       = s1\<lparr>trace := trace s1 @ JWKFetch appleKeysURL # evs\<rparr>"
    and evs: "list_all is_KeyLookup evs" "length evs \<le> 1"
    using verify_state[of e1 tokenString audience s1] by blast
  from st have frame:
    "(snd (verifyAppleIDToken e1 tokenString audience s1))\<lparr>trace := trace s1\<rparr> = s1"
    by simp
  from st have "trace (snd (verifyAppleIDToken e1 tokenString audience s1))
                  = trace s1 @ JWKFetch appleKeysURL # evs"
    by simp
  with same frame evs show ?thesis by blast
qed

text \<open>
  The theorem at the token \<open>fresh\<close>, run once in the world without a backend from
  the initial state, and once in the world with a backend from a state with other
  variables and an earlier history.
\<close>

theorem verification_is_deterministic_witness:
  "jwk_Fetch example_env appleKeysURL = jwk_Fetch example_env_cognito appleKeysURL \<and>
   jwt_ParseUnverified example_env ''fresh'' = jwt_ParseUnverified example_env_cognito ''fresh'' \<and>
   jwt_Verify example_env = jwt_Verify example_env_cognito \<and>
   jwt_ClaimsValid example_env = jwt_ClaimsValid example_env_cognito \<and>
   time_Now example_env = time_Now example_env_cognito \<and>
   int64_overflow example_env = int64_overflow example_env_cognito \<and>
   fst (verifyAppleIDToken example_env ''fresh'' ''client'' example_state)
     = fst (verifyAppleIDToken example_env_cognito ''fresh'' ''client'' example_state_later) \<and>
   (snd (verifyAppleIDToken example_env ''fresh'' ''client'' example_state))
       \<lparr>trace := trace example_state\<rparr> = example_state \<and>
   (\<exists>evs. trace (snd (verifyAppleIDToken example_env ''fresh'' ''client'' example_state))
            = trace example_state @ JWKFetch appleKeysURL # evs \<and>
          list_all is_KeyLookup evs \<and> length evs \<le> 1)"
proof -
  have h1: "jwk_Fetch example_env appleKeysURL = jwk_Fetch example_env_cognito appleKeysURL"
    by (simp add: example_env_cognito_def)
  have h2: "jwt_ParseUnverified example_env ''fresh''
              = jwt_ParseUnverified example_env_cognito ''fresh''"
    by (simp add: example_env_cognito_def)
  have h3: "jwt_Verify example_env = jwt_Verify example_env_cognito"
    by (simp add: example_env_cognito_def)
  have h4: "jwt_ClaimsValid example_env = jwt_ClaimsValid example_env_cognito"
    by (simp add: example_env_cognito_def)
  have h5: "time_Now example_env = time_Now example_env_cognito"
    by (simp add: example_env_cognito_def)
  have h6: "int64_overflow example_env = int64_overflow example_env_cognito"
    by (simp add: example_env_cognito_def)
  from verification_is_deterministic[OF h1 h2 h3 h4 h5 h6, of "''client''" example_state
      example_state_later] h1 h2 h3 h4 h5 h6
  show ?thesis by blast
qed

end
